theory Spec2Isabelle
  imports Main "HOL-Library.Word" "HOL-Library.Sublist"
begin

section \<open>Email tools: a shallow embedding of \<open>python_tools/Email_tools/email_tools.py\<close>\<close>

text \<open>
  The module talks to an SMTP and an IMAP server through the Python standard library.
  Everything that lies outside the module (the process environment, the clock, the
  outcome of every call into \<open>smtplib\<close> and \<open>imaplib\<close>, the parsed form of a fetched
  message) is gathered in a record \<open>world\<close>; the functions of the module are HOL
  functions of the world and of their arguments, and return their result together with the
  list of network calls they made, in order.
\<close>

subsection \<open>Python strings and bytes\<close>

text \<open>
  A Python \<open>str\<close> is a sequence of Unicode code points and \<open>len\<close> counts code points, so
  a \<open>str\<close> is a list of naturals here; \<open>bytes\<close> is a list of 8-bit words. \<open>lit\<close> embeds an
  ASCII literal of the source.
\<close>

type_synonym str = "nat list"
type_synonym bytes = "8 word list"

definition lit :: "string \<Rightarrow> str" where
  "lit s = map of_char s"

text \<open>\<open>str(n)\<close> for a non-negative integer.\<close>

fun str_of_nat :: "nat \<Rightarrow> str" where
  "str_of_nat n = (if n < 10 then [48 + n] else str_of_nat (n div 10) @ [48 + n mod 10])"

declare str_of_nat.simps [simp del]

definition str_of_int :: "int \<Rightarrow> str" where
  "str_of_int i = (if i < 0 then 45 # str_of_nat (nat (- i)) else str_of_nat (nat i))"

text \<open>
  \<open>str.lower()\<close>. Only the ASCII letters are mapped; Python also maps letters beyond
  ASCII (so the model is exact on ASCII strings, which is what the provider names and the
  \<open>unread_only\<close> flag of the module are compared with).
\<close>

definition lower_char :: "nat \<Rightarrow> nat" where
  "lower_char c = (if 65 \<le> c \<and> c \<le> 90 then c + 32 else c)"

definition py_lower :: "str \<Rightarrow> str" where
  "py_lower s = map lower_char s"

text \<open>\<open>s.split(sep)\<close> for a one-character separator: every separator splits, empty fields are kept.\<close>

fun split_on :: "nat \<Rightarrow> str \<Rightarrow> str list" where
  "split_on sep [] = [[]]"
| "split_on sep (c # cs) =
     (if c = sep then [] # split_on sep cs
      else (case split_on sep cs of
              [] \<Rightarrow> [[c]]
            | f # fs \<Rightarrow> (c # f) # fs))"

text \<open>\<open>b.split()\<close> on bytes: split on runs of ASCII whitespace, no empty fields.\<close>

definition is_space_byte :: "8 word \<Rightarrow> bool" where
  "is_space_byte b = (b = 32 \<or> (9 \<le> b \<and> b \<le> 13))"

fun bytes_split_acc :: "bytes \<Rightarrow> bytes \<Rightarrow> bytes list" where
  "bytes_split_acc cur [] = (if cur = [] then [] else [cur])"
| "bytes_split_acc cur (b # bs) =
     (if is_space_byte b
      then (if cur = [] then bytes_split_acc [] bs else cur # bytes_split_acc [] bs)
      else bytes_split_acc (cur @ [b]) bs)"

definition bytes_split :: "bytes \<Rightarrow> bytes list" where
  "bytes_split bs = bytes_split_acc [] bs"

text \<open>Truthiness of an optional string: \<open>None\<close> and \<open>""\<close> are false.\<close>

definition truthy :: "str option \<Rightarrow> bool" where
  "truthy v = (case v of None \<Rightarrow> False | Some s \<Rightarrow> s \<noteq> [])"

text \<open>\<open>s.strip()\<close>: removes the characters for which \<open>str.isspace\<close> holds at both ends.\<close>

definition is_space :: "nat \<Rightarrow> bool" where
  "is_space c =
     ((9 \<le> c \<and> c \<le> 13) \<or> (28 \<le> c \<and> c \<le> 32) \<or> c = 0x85 \<or> c = 0xA0 \<or> c = 0x1680
      \<or> (0x2000 \<le> c \<and> c \<le> 0x200A) \<or> c = 0x2028 \<or> c = 0x2029 \<or> c = 0x202F
      \<or> c = 0x205F \<or> c = 0x3000)"

definition py_strip :: "str \<Rightarrow> str" where
  "py_strip s = rev (dropWhile is_space (rev (dropWhile is_space s)))"

text \<open>\<open>repr(s)\<close>, for a string without quotes, backslashes and non-printing characters.\<close>

definition py_repr :: "str \<Rightarrow> str" where
  "py_repr s = [39] @ s @ [39]"

subsection \<open>Exceptions\<close>

text \<open>
  The handlers of the module tell three classes from the rest: \<open>SMTPAuthenticationError\<close>
  (a subclass of \<open>SMTPException\<close>), the other \<open>SMTPException\<close>s, and \<open>IMAP4.error\<close> with its
  subclasses. Every other subclass of \<open>Exception\<close> (\<open>ValueError\<close>, \<open>TypeError\<close>, \<open>OSError\<close>, ...)
  is caught by \<open>except Exception\<close> alone, so one constructor stands for them. The argument
  is \<open>str(e)\<close>.
\<close>

datatype exn =
    SMTPAuthenticationError str
  | SMTPException str
  | IMAP4_error str
  | Exception str

fun exn_str :: "exn \<Rightarrow> str" where
  "exn_str (SMTPAuthenticationError s) = s"
| "exn_str (SMTPException s) = s"
| "exn_str (IMAP4_error s) = s"
| "exn_str (Exception s) = s"

text \<open>The errors the interpreter raises on the module's own expressions.\<close>

definition ValueError_int :: "str \<Rightarrow> exn" where
  "ValueError_int s = Exception (lit ''invalid literal for int() with base 10: '' @ py_repr s)"

definition AttributeError_None :: "string \<Rightarrow> exn" where
  "AttributeError_None attr =
     Exception (py_repr (lit ''NoneType'') @ lit '' object has no attribute '' @ py_repr (lit attr))"

definition AttributeError_int :: "string \<Rightarrow> exn" where
  "AttributeError_int attr =
     Exception (py_repr (lit ''int'') @ lit '' object has no attribute '' @ py_repr (lit attr))"

definition TypeError_subscript :: exn where
  "TypeError_subscript = Exception (py_repr (lit ''NoneType'') @ lit '' object is not subscriptable'')"

definition IndexError_list :: exn where
  "IndexError_list = Exception (lit ''list index out of range'')"

definition IndexError_bytes :: exn where
  "IndexError_bytes = Exception (lit ''index out of range'')"

definition KeyError :: "string \<Rightarrow> exn" where
  "KeyError k = Exception (py_repr (lit k))"

text \<open>
  The text of a \<open>UnicodeDecodeError\<close> names the offending byte and its position; the model
  keeps the fixed part of it.
\<close>

definition UnicodeDecodeError :: exn where
  "UnicodeDecodeError = Exception (py_repr (lit ''utf-8'') @ lit '' codec can'' @ [39] @ lit ''t decode bytes'')"

subsection \<open>\<open>int(s)\<close> on a string\<close>

text \<open>
  \<open>int\<close> strips white space, reads an optional sign and then decimal digits, where single
  underscores may stand between digits. The model reads ASCII digits; Python also reads
  the decimal digits of other scripts, and refuses literals of more than 4300 digits.
\<close>

definition is_int_space :: "nat \<Rightarrow> bool" where
  "is_int_space c = (is_space c \<and> \<not> (28 \<le> c \<and> c \<le> 31))"

definition is_digit :: "nat \<Rightarrow> bool" where
  "is_digit c = (48 \<le> c \<and> c \<le> 57)"

fun digits_value :: "nat \<Rightarrow> str \<Rightarrow> nat option" where
  "digits_value acc [] = Some acc"
| "digits_value acc (c # cs) =
     (if is_digit c then digits_value (10 * acc + (c - 48)) cs
      else if c = 95 \<and> (case cs of [] \<Rightarrow> False | d # _ \<Rightarrow> is_digit d) then digits_value acc cs
      else None)"

definition unsigned_value :: "str \<Rightarrow> nat option" where
  "unsigned_value ds =
     (case ds of
        [] \<Rightarrow> None
      | d # _ \<Rightarrow> if is_digit d then digits_value 0 ds else None)"

definition py_int :: "str \<Rightarrow> exn + int" where
  "py_int s =
     (let t = rev (dropWhile is_int_space (rev (dropWhile is_int_space s)));
          v = (case t of
                 [] \<Rightarrow> None
               | c # cs \<Rightarrow>
                   if c = 45 then map_option (\<lambda>n. - int n) (unsigned_value cs)
                   else if c = 43 then map_option int (unsigned_value cs)
                   else map_option int (unsigned_value t))
      in case v of None \<Rightarrow> Inl (ValueError_int s) | Some i \<Rightarrow> Inr i)"

subsection \<open>\<open>bytes.decode('utf-8', errors)\<close>\<close>

text \<open>
  The decoder reads one character at a time. \<open>utf8_next b bs\<close> reads the character that
  starts with the byte \<open>b\<close>: it returns the code point and the input after it, or \<open>None\<close> and
  the input after the ill-formed bytes (the longest prefix of a well-formed sequence, one
  byte at least; a sequence cut short by the end of the input takes all of it). The error
  handler decides what an ill-formed sequence becomes: \<open>strict\<close> raises, \<open>ignore\<close> drops it,
  \<open>replace\<close> puts U+FFFD in its place. The module calls \<open>decode()\<close> (strict) on message
  identifiers and \<open>decode('utf-8', errors='ignore')\<close> on bodies; it never uses \<open>replace\<close>.
\<close>

datatype errors = Strict | Ignore | Replace

definition is_cont :: "nat \<Rightarrow> bool" where
  "is_cont c = (0x80 \<le> c \<and> c \<le> 0xBF)"

definition second_ok :: "nat \<Rightarrow> nat \<Rightarrow> bool" where
  "second_ok b c =
     (is_cont c \<and> \<not> (if c < 0xA0 then b = 0xE0 else b = 0xED)
                \<and> \<not> (if c < 0x90 then b = 0xF0 else b = 0xF4))"

definition cp2 :: "nat \<Rightarrow> nat \<Rightarrow> nat" where
  "cp2 b c = (b - 0xC0) * 64 + (c - 0x80)"

definition cp3 :: "nat \<Rightarrow> nat \<Rightarrow> nat \<Rightarrow> nat" where
  "cp3 b c d = (b - 0xE0) * 4096 + (c - 0x80) * 64 + (d - 0x80)"

definition cp4 :: "nat \<Rightarrow> nat \<Rightarrow> nat \<Rightarrow> nat \<Rightarrow> nat" where
  "cp4 b c d e = (b - 0xF0) * 262144 + (c - 0x80) * 4096 + (d - 0x80) * 64 + (e - 0x80)"

definition utf8_next :: "8 word \<Rightarrow> bytes \<Rightarrow> nat option \<times> bytes" where
  "utf8_next b bs =
    (if unat b < 0x80 then (Some (unat b), bs)
     else if unat b < 0xC2 \<or> 0xF4 < unat b then (None, bs)
     else (case bs of
         [] \<Rightarrow> (None, [])
       | c # cs \<Rightarrow>
          if unat b < 0xE0 then
            (if is_cont (unat c) then (Some (cp2 (unat b) (unat c)), cs) else (None, bs))
          else if \<not> second_ok (unat b) (unat c) then (None, bs)
          else (case cs of
              [] \<Rightarrow> (None, [])
            | d # ds \<Rightarrow>
               if \<not> is_cont (unat d) then (None, cs)
               else if unat b < 0xF0 then (Some (cp3 (unat b) (unat c) (unat d)), ds)
               else (case ds of
                   [] \<Rightarrow> (None, [])
                 | e # es \<Rightarrow>
                    if is_cont (unat e)
                    then (Some (cp4 (unat b) (unat c) (unat d) (unat e)), es)
                    else (None, ds)))))"

lemma utf8_next_length: "length (snd (utf8_next b bs)) \<le> length bs"
  unfolding utf8_next_def by (simp split: list.split)

function utf8_scan :: "bytes \<Rightarrow> nat option list" where
  "utf8_scan [] = []"
| "utf8_scan (b # bs) = fst (utf8_next b bs) # utf8_scan (snd (utf8_next b bs))"
  by pat_completeness auto
termination
  by (relation "measure length") (simp_all add: utf8_next_length less_Suc_eq_le)

definition py_decode :: "errors \<Rightarrow> bytes \<Rightarrow> exn + str" where
  "py_decode errors bs =
     (case errors of
        Strict \<Rightarrow>
          (if None \<in> set (utf8_scan bs) then Inl UnicodeDecodeError
           else Inr (List.map_filter id (utf8_scan bs)))
      | Ignore \<Rightarrow> Inr (List.map_filter id (utf8_scan bs))
      | Replace \<Rightarrow> Inr (map (\<lambda>x. case x of None \<Rightarrow> 0xFFFD | Some c \<Rightarrow> c) (utf8_scan bs)))"

subsection \<open>Messages\<close>

text \<open>
  The message that \<open>_send_email_helper\<close> composes. \<open>MIMEMultipart()\<close> comes with the two
  headers the library sets itself; \<open>msg[k] = v\<close> appends a header; \<open>attach\<close> appends a
  part, here a \<open>MIMEText(body, subtype)\<close>.
\<close>

record mime_message =
  headers :: "(string \<times> str option) list"
  parts :: "(string \<times> str) list"

definition MIMEMultipart :: mime_message where
  "MIMEMultipart =
     \<lparr>headers = [(''Content-Type'', Some (lit ''multipart/mixed'')),
                 (''MIME-Version'', Some (lit ''1.0''))],
      parts = []\<rparr>"

definition set_header :: "mime_message \<Rightarrow> string \<Rightarrow> str option \<Rightarrow> mime_message" where
  "set_header msg k v = msg\<lparr>headers := headers msg @ [(k, v)]\<rparr>"

definition attach :: "mime_message \<Rightarrow> string \<times> str \<Rightarrow> mime_message" where
  "attach msg part = msg\<lparr>parts := parts msg @ [part]\<rparr>"

definition MIMEText :: "str \<Rightarrow> string \<Rightarrow> string \<times> str" where
  "MIMEText body subtype = (subtype, body)"

text \<open>
  A fetched message, as the reader observes it through the \<open>email\<close> library: the four
  headers it asks for (\<open>None\<close> when absent), \<open>is_multipart()\<close>, the parts that \<open>walk()\<close>
  yields in order, each with its \<open>get_content_type()\<close> and its \<open>get_payload(decode=True)\<close>
  (\<open>None\<close> for a container), and \<open>get_payload(decode=True)\<close> of the message itself.
\<close>

record mime_part =
  content_type :: str
  part_payload :: "bytes option"

record email_message =
  hdr_Subject :: "str option"
  hdr_From :: "str option"
  hdr_Date :: "str option"
  hdr_To :: "str option"
  is_multipart :: bool
  walk :: "mime_part list"
  get_payload :: "bytes option"

text \<open>An item of the data list of a \<open>FETCH\<close> response: a pair of bytes, bare bytes, or \<open>None\<close>.\<close>

datatype fetch_item = Tuple bytes bytes | Bytes bytes | NoneItem

subsection \<open>The world\<close>

text \<open>
  The environment variables the module reads (after \<open>load_dotenv()\<close>), the two readings of
  the clock, and the outcome of each call into \<open>smtplib\<close> and \<open>imaplib\<close>: \<open>None\<close> or
  \<open>Inr\<close> when the call returns, the exception when it raises. The \<open>n\<close>th \<open>fetch\<close> of a
  session has its own outcome.
\<close>

record environ =
  EMAIL_ADDRESS :: "str option"
  EMAIL_PASSWORD :: "str option"
  SMTP_SERVER :: "str option"
  SMTP_PORT :: "str option"
  IMAP_SERVER :: "str option"
  IMAP_PORT :: "str option"

record world =
  getenv :: environ
  now_isoformat :: str
  now_strftime :: str
  smtp_connect :: "str option \<Rightarrow> int \<Rightarrow> exn option"
  smtp_starttls :: "exn option"
  smtp_login :: "str option \<Rightarrow> str option \<Rightarrow> exn option"
  smtp_sendmail :: "str option \<Rightarrow> str list \<Rightarrow> mime_message \<Rightarrow> exn option"
  smtp_quit :: "exn option"
  imap_connect :: "str option \<Rightarrow> int \<Rightarrow> exn option"
  imap_login :: "str option \<Rightarrow> str option \<Rightarrow> exn option"
  imap_select :: "str \<Rightarrow> exn option"
  imap_search :: "str \<Rightarrow> exn + (str \<times> bytes option list)"
  imap_fetch :: "nat \<Rightarrow> bytes \<Rightarrow> exn + (str \<times> fetch_item list)"
  imap_logout :: "exn option"
  message_from_bytes :: "bytes \<Rightarrow> email_message"

text \<open>The network calls, as they appear in the trace of a run.\<close>

datatype event =
    SMTP_connect "str option" int
  | SMTP_starttls
  | SMTP_login "str option" "str option"
  | SMTP_sendmail "str option" "str list" mime_message
  | SMTP_quit
  | IMAP_connect "str option" int
  | IMAP_login "str option" "str option"
  | IMAP_select str
  | IMAP_search str
  | IMAP_fetch bytes
  | IMAP_logout

subsection \<open>Computations that call the network and may raise\<close>

text \<open>
  A computation yields the calls it made and either its value or the exception that ended
  it. \<open>io_try\<close> is \<open>try: ... except ...\<close> with handlers that return a value.
\<close>

type_synonym 'a io = "event list \<times> (exn + 'a)"

definition io_return :: "'a \<Rightarrow> 'a io" where
  "io_return x = ([], Inr x)"

definition io_pure :: "exn + 'a \<Rightarrow> 'a io" where
  "io_pure r = ([], r)"

definition io_call :: "event \<Rightarrow> exn option \<Rightarrow> unit io" where
  "io_call ev outcome = ([ev], case outcome of None \<Rightarrow> Inr () | Some e \<Rightarrow> Inl e)"

definition io_call_val :: "event \<Rightarrow> exn + 'a \<Rightarrow> 'a io" where
  "io_call_val ev outcome = ([ev], outcome)"

definition io_bind :: "'a io \<Rightarrow> ('a \<Rightarrow> 'b io) \<Rightarrow> 'b io" where
  "io_bind m f =
     (case m of
        (tr, Inl e) \<Rightarrow> (tr, Inl e)
      | (tr, Inr x) \<Rightarrow> (case f x of (tr', r) \<Rightarrow> (tr @ tr', r)))"

definition io_try :: "'a io \<Rightarrow> (exn \<Rightarrow> 'a) \<Rightarrow> event list \<times> 'a" where
  "io_try m handler = (case m of (tr, Inl e) \<Rightarrow> (tr, handler e) | (tr, Inr x) \<Rightarrow> (tr, x))"

definition io_lift :: "event list \<times> 'a \<Rightarrow> 'a io" where
  "io_lift m = (case m of (tr, x) \<Rightarrow> (tr, Inr x))"

subsection \<open>\<open>EmailConfig\<close>\<close>

record server_config =
  server :: "str option"
  port :: int

record EmailConfig =
  provider :: str
  email_address :: "str option"
  email_password :: "str option"
  smtp_configs :: "(str \<times> server_config) list"
  imap_configs :: "(str \<times> server_config) list"

text \<open>\<open>int(os.getenv(name, default))\<close>: the default is an integer already.\<close>

definition getenv_int :: "str option \<Rightarrow> int \<Rightarrow> exn + int" where
  "getenv_int v dflt = (case v of None \<Rightarrow> Inr dflt | Some s \<Rightarrow> py_int s)"

text \<open>
  \<open>EmailConfig.__init__\<close>. The two dictionaries are built whole, whatever the provider, so
  both port variables are read by \<open>int\<close> on every construction, \<open>SMTP_PORT\<close> first.
\<close>

definition EmailConfig_init :: "world \<Rightarrow> str \<Rightarrow> exn + EmailConfig" where
  "EmailConfig_init w provider_name =
     (case getenv_int (SMTP_PORT (getenv w)) 587 of
        Inl e \<Rightarrow> Inl e
      | Inr smtp_port \<Rightarrow>
          (case getenv_int (IMAP_PORT (getenv w)) 993 of
             Inl e \<Rightarrow> Inl e
           | Inr imap_port \<Rightarrow>
               Inr \<lparr>provider = py_lower provider_name,
                    email_address = EMAIL_ADDRESS (getenv w),
                    email_password = EMAIL_PASSWORD (getenv w),
                    smtp_configs =
                      [(lit ''gmail'', \<lparr>server = Some (lit ''smtp.gmail.com''), port = 587\<rparr>),
                       (lit ''outlook'', \<lparr>server = Some (lit ''smtp-mail.outlook.com''), port = 587\<rparr>),
                       (lit ''yahoo'', \<lparr>server = Some (lit ''smtp.mail.yahoo.com''), port = 587\<rparr>),
                       (lit ''custom'', \<lparr>server = SMTP_SERVER (getenv w), port = smtp_port\<rparr>)],
                    imap_configs =
                      [(lit ''gmail'', \<lparr>server = Some (lit ''imap.gmail.com''), port = 993\<rparr>),
                       (lit ''outlook'', \<lparr>server = Some (lit ''outlook.office365.com''), port = 993\<rparr>),
                       (lit ''yahoo'', \<lparr>server = Some (lit ''imap.mail.yahoo.com''), port = 993\<rparr>),
                       (lit ''custom'', \<lparr>server = IMAP_SERVER (getenv w), port = imap_port\<rparr>)]\<rparr>))"

text \<open>
  \<open>d.get(key, d["gmail"])\<close>: the default is evaluated first, and \<open>d["gmail"]\<close> raises
  \<open>KeyError\<close> on a dictionary without that key.
\<close>

definition dict_get_or_gmail :: "(str \<times> server_config) list \<Rightarrow> str \<Rightarrow> exn + server_config" where
  "dict_get_or_gmail d key =
     (case map_of d (lit ''gmail'') of
        None \<Rightarrow> Inl (KeyError ''gmail'')
      | Some dflt \<Rightarrow> Inr (case map_of d key of None \<Rightarrow> dflt | Some v \<Rightarrow> v))"

definition get_smtp_config :: "EmailConfig \<Rightarrow> exn + server_config" where
  "get_smtp_config self = dict_get_or_gmail (smtp_configs self) (provider self)"

definition get_imap_config :: "EmailConfig \<Rightarrow> exn + server_config" where
  "get_imap_config self = dict_get_or_gmail (imap_configs self) (provider self)"

definition validate_credentials :: "EmailConfig \<Rightarrow> bool" where
  "validate_credentials self = (truthy (email_address self) \<and> truthy (email_password self))"

subsection \<open>The body preview\<close>

text \<open>
  Line 192 of the module:
  \<^verbatim>\<open>email_info["body_preview"] = body[:200] + "..." if len(body) > 200 else body\<close>
  The conditional expression binds weaker than \<open>+\<close>.
\<close>

definition body_preview :: "str \<Rightarrow> str" where
  "body_preview body = (if length body > 200 then take 200 body @ lit ''...'' else body)"

subsection \<open>\<open>_send_email_helper\<close>\<close>

text \<open>
  The result dictionary of the sender: the keys \<open>success\<close> and \<open>message\<close> are always
  there, \<open>timestamp\<close> on success only.
\<close>

record send_result =
  s_success :: bool
  s_message :: str
  s_timestamp :: "str option"

text \<open>Lines 72 to 85: the message, with a \<open>Cc\<close> header when \<open>cc_email\<close> is true.\<close>

definition compose_message ::
  "EmailConfig \<Rightarrow> str \<Rightarrow> str \<Rightarrow> str \<Rightarrow> str option \<Rightarrow> bool \<Rightarrow> mime_message" where
  "compose_message config to_email subject body cc_email is_html =
     (let msg = MIMEMultipart;
          msg = set_header msg ''From'' (email_address config);
          msg = set_header msg ''To'' (Some to_email);
          msg = set_header msg ''Subject'' (Some subject);
          msg = (if truthy cc_email then set_header msg ''Cc'' cc_email else msg)
      in if is_html then attach msg (MIMEText body ''html'')
         else attach msg (MIMEText body ''plain''))"

text \<open>\<open>if v: recipients.extend(v.split(','))\<close>\<close>

definition extend_split :: "str list \<Rightarrow> str option \<Rightarrow> str list" where
  "extend_split recipients v =
     (case v of
        None \<Rightarrow> recipients
      | Some s \<Rightarrow> if s \<noteq> [] then recipients @ split_on 44 s else recipients)"

text \<open>The body of the \<open>try\<close> block (lines 64 to 109).\<close>

definition send_email_try ::
  "world \<Rightarrow> str \<Rightarrow> str \<Rightarrow> str \<Rightarrow> str option \<Rightarrow> str option \<Rightarrow> bool \<Rightarrow> str \<Rightarrow> send_result io" where
  "send_email_try w to_email subject body cc_email bcc_email is_html provider_name =
     io_bind (io_pure (EmailConfig_init w provider_name)) (\<lambda>config.
       if \<not> validate_credentials config then
         io_return
           \<lparr>s_success = False,
            s_message = lit ''Email credentials not configured. Check EMAIL_ADDRESS and EMAIL_PASSWORD environment variables.'',
            s_timestamp = None\<rparr>
       else
         let msg = compose_message config to_email subject body cc_email is_html in
         io_bind (io_pure (get_smtp_config config)) (\<lambda>smtp_config.
         io_bind (io_call (SMTP_connect (server smtp_config) (port smtp_config))
                    (smtp_connect w (server smtp_config) (port smtp_config))) (\<lambda>_.
         io_bind (io_call SMTP_starttls (smtp_starttls w)) (\<lambda>_.
         io_bind (io_call (SMTP_login (email_address config) (email_password config))
                    (smtp_login w (email_address config) (email_password config))) (\<lambda>_.
         let recipients = extend_split (extend_split [to_email] cc_email) bcc_email in
         io_bind (io_call (SMTP_sendmail (email_address config) recipients msg)
                    (smtp_sendmail w (email_address config) recipients msg)) (\<lambda>_.
         io_bind (io_call SMTP_quit (smtp_quit w)) (\<lambda>_.
         io_return
           \<lparr>s_success = True,
            s_message = lit ''Email sent successfully to '' @ to_email,
            s_timestamp = Some (now_isoformat w)\<rparr>)))))))"

text \<open>The three \<open>except\<close> clauses (lines 111 to 125), in their order.\<close>

fun send_email_except :: "exn \<Rightarrow> send_result" where
  "send_email_except (SMTPAuthenticationError s) =
     \<lparr>s_success = False,
      s_message = lit ''Authentication failed. Check your email credentials or use app-specific password.'',
      s_timestamp = None\<rparr>"
| "send_email_except (SMTPException s) =
     \<lparr>s_success = False, s_message = lit ''SMTP error: '' @ s, s_timestamp = None\<rparr>"
| "send_email_except e =
     \<lparr>s_success = False, s_message = lit ''Unexpected error: '' @ exn_str e, s_timestamp = None\<rparr>"

definition send_email_helper ::
  "world \<Rightarrow> str \<Rightarrow> str \<Rightarrow> str \<Rightarrow> str option \<Rightarrow> str option \<Rightarrow> bool \<Rightarrow> str
     \<Rightarrow> event list \<times> send_result" where
  "send_email_helper w to_email subject body cc_email bcc_email is_html provider_name =
     io_try (send_email_try w to_email subject body cc_email bcc_email is_html provider_name)
       send_email_except"

subsection \<open>\<open>_read_emails_helper\<close>\<close>

text \<open>
  A summary (the dictionary \<open>email_info\<close>, keys \<open>id\<close>, \<open>subject\<close>, \<open>from\<close>, \<open>date\<close>, \<open>to\<close> and
  \<open>body_preview\<close>) and the result dictionary of the reader: \<open>count\<close> is there on success
  only.
\<close>

record email_info =
  info_id :: str
  info_subject :: str
  info_from :: str
  info_date :: str
  info_to :: "str option"
  info_body_preview :: str

record read_result =
  r_success :: bool
  r_message :: str
  r_count :: "nat option"
  r_emails :: "email_info list"

text \<open>\<open>message_ids[0].split()\<close>\<close>

definition first_split :: "bytes option list \<Rightarrow> exn + bytes list" where
  "first_split message_ids =
     (case message_ids of
        [] \<Rightarrow> Inl IndexError_list
      | None # _ \<Rightarrow> Inl (AttributeError_None ''split'')
      | Some b # _ \<Rightarrow> Inr (bytes_split b))"

text \<open>
  \<open>xs[-limit:]\<close>: a negative start counts from the end and stops at the beginning of the
  list; \<open>-0\<close> is \<open>0\<close>, so a limit of zero keeps the whole list.
\<close>

definition last_slice :: "int \<Rightarrow> 'a list \<Rightarrow> 'a list" where
  "last_slice limit xs =
     (let start = - limit
      in if start < 0 then drop (nat (max 0 (int (length xs) + start))) xs
         else drop (nat start) xs)"

text \<open>
  \<open>message_data[0][1]\<close>, as \<open>email.message_from_bytes\<close> needs it: the second component of
  a pair. Bare bytes give an integer there, which the parser cannot decode.
\<close>

definition fetched_raw :: "fetch_item list \<Rightarrow> exn + bytes" where
  "fetched_raw message_data =
     (case message_data of
        [] \<Rightarrow> Inl IndexError_list
      | Tuple a b # _ \<Rightarrow> Inr b
      | Bytes b # _ \<Rightarrow> if length b < 2 then Inl IndexError_bytes else Inl (AttributeError_int ''decode'')
      | NoneItem # _ \<Rightarrow> Inl TypeError_subscript)"

text \<open>\<open>v or d\<close>\<close>

definition or_default :: "str option \<Rightarrow> str \<Rightarrow> str" where
  "or_default v d = (case v of None \<Rightarrow> d | Some s \<Rightarrow> if s \<noteq> [] then s else d)"

definition or_else :: "str option \<Rightarrow> str option \<Rightarrow> str option" where
  "or_else v d = (if truthy v then v else d)"

text \<open>\<open>payload.decode('utf-8', errors='ignore')\<close>, where the payload may be \<open>None\<close>.\<close>

definition decode_payload :: "bytes option \<Rightarrow> exn + str" where
  "decode_payload p =
     (case p of None \<Rightarrow> Inl (AttributeError_None ''decode'') | Some bs \<Rightarrow> py_decode Ignore bs)"

text \<open>Lines 183 to 190: the first \<open>text/plain\<close> part of a multipart message, else the payload.\<close>

fun first_plain :: "mime_part list \<Rightarrow> exn + str" where
  "first_plain [] = Inr []"
| "first_plain (part # rest) =
     (if content_type part = lit ''text/plain'' then decode_payload (part_payload part)
      else first_plain rest)"

definition extract_body :: "email_message \<Rightarrow> exn + str" where
  "extract_body email_message =
     (if is_multipart email_message then first_plain (walk email_message)
      else decode_payload (get_payload email_message))"

text \<open>Lines 174 to 192: one summary.\<close>

definition build_email_info :: "EmailConfig \<Rightarrow> bytes \<Rightarrow> email_message \<Rightarrow> exn + email_info" where
  "build_email_info config email_id email_message =
     (case py_decode Strict email_id of
        Inl e \<Rightarrow> Inl e
      | Inr ident \<Rightarrow>
          (case extract_body email_message of
             Inl e \<Rightarrow> Inl e
           | Inr body \<Rightarrow>
               Inr \<lparr>info_id = ident,
                    info_subject = or_default (hdr_Subject email_message) (lit ''No Subject''),
                    info_from = or_default (hdr_From email_message) (lit ''Unknown Sender''),
                    info_date = or_default (hdr_Date email_message) (lit ''Unknown Date''),
                    info_to = or_else (hdr_To email_message) (email_address config),
                    info_body_preview = body_preview body\<rparr>))"

text \<open>
  The loop of lines 167 to 193 over the identifiers still to fetch; \<open>n\<close> counts the
  fetches made before. A fetch whose result is not \<open>OK\<close> adds no summary.
\<close>

fun fetch_loop :: "world \<Rightarrow> EmailConfig \<Rightarrow> nat \<Rightarrow> bytes list \<Rightarrow> email_info list \<Rightarrow> email_info list io" where
  "fetch_loop w config n [] emails = io_return emails"
| "fetch_loop w config n (email_id # rest) emails =
     io_bind (io_call_val (IMAP_fetch email_id) (imap_fetch w n email_id)) (\<lambda>(result, message_data).
       if result = lit ''OK'' then
         io_bind (io_pure (fetched_raw message_data)) (\<lambda>raw.
         io_bind (io_pure (build_email_info config email_id (message_from_bytes w raw))) (\<lambda>email_info.
         fetch_loop w config (Suc n) rest (emails @ [email_info])))
       else fetch_loop w config (Suc n) rest emails)"

text \<open>The body of the \<open>try\<close> block (lines 134 to 202).\<close>

definition read_emails_try :: "world \<Rightarrow> str \<Rightarrow> int \<Rightarrow> bool \<Rightarrow> str \<Rightarrow> read_result io" where
  "read_emails_try w folder limit unread_only provider_name =
     io_bind (io_pure (EmailConfig_init w provider_name)) (\<lambda>config.
       if \<not> validate_credentials config then
         io_return
           \<lparr>r_success = False, r_message = lit ''Email credentials not configured.'',
            r_count = None, r_emails = []\<rparr>
       else
         io_bind (io_pure (get_imap_config config)) (\<lambda>imap_config.
         io_bind (io_call (IMAP_connect (server imap_config) (port imap_config))
                    (imap_connect w (server imap_config) (port imap_config))) (\<lambda>_.
         io_bind (io_call (IMAP_login (email_address config) (email_password config))
                    (imap_login w (email_address config) (email_password config))) (\<lambda>_.
         io_bind (io_call (IMAP_select folder) (imap_select w folder)) (\<lambda>_.
         let search_criteria = (if unread_only then lit ''UNSEEN'' else lit ''ALL'') in
         io_bind (io_call_val (IMAP_search search_criteria) (imap_search w search_criteria))
           (\<lambda>(result, message_ids).
             if result \<noteq> lit ''OK'' then
               io_return
                 \<lparr>r_success = False, r_message = lit ''Failed to search emails'',
                  r_count = None, r_emails = []\<rparr>
             else
               io_bind (io_pure (first_split message_ids)) (\<lambda>email_ids.
               let email_ids = last_slice limit email_ids in
               io_bind (fetch_loop w config 0 (rev email_ids) []) (\<lambda>emails.
               io_bind (io_call IMAP_logout (imap_logout w)) (\<lambda>_.
               io_return
                 \<lparr>r_success = True,
                  r_message = lit ''Retrieved '' @ str_of_nat (length emails) @ lit '' emails from '' @ folder,
                  r_count = Some (length emails),
                  r_emails = emails\<rparr>)))))))))"

text \<open>The two \<open>except\<close> clauses (lines 204 to 215).\<close>

fun read_emails_except :: "exn \<Rightarrow> read_result" where
  "read_emails_except (IMAP4_error s) =
     \<lparr>r_success = False, r_message = lit ''IMAP error: '' @ s, r_count = None, r_emails = []\<rparr>"
| "read_emails_except e =
     \<lparr>r_success = False, r_message = lit ''Unexpected error: '' @ exn_str e,
      r_count = None, r_emails = []\<rparr>"

definition read_emails_helper :: "world \<Rightarrow> str \<Rightarrow> int \<Rightarrow> bool \<Rightarrow> str \<Rightarrow> event list \<times> read_result" where
  "read_emails_helper w folder limit unread_only provider_name =
     io_try (read_emails_try w folder limit unread_only provider_name) read_emails_except"

subsection \<open>\<open>_test_email_connection_helper\<close>\<close>

text \<open>
  The result dictionary of the connection test: \<open>success\<close>, \<open>message\<close> and \<open>provider\<close>
  always, \<open>email\<close>, \<open>smtp_server\<close> and \<open>imap_server\<close> on success only. The value under
  \<open>email\<close> is the configured address.
\<close>

record test_result =
  t_success :: bool
  t_message :: str
  t_provider :: str
  t_email :: "str option option"
  t_smtp_server :: "str option"
  t_imap_server :: "str option"

text \<open>A value that is a string or \<open>None\<close>, inside an f-string.\<close>

definition format_opt :: "str option \<Rightarrow> str" where
  "format_opt v = (case v of None \<Rightarrow> lit ''None'' | Some s \<Rightarrow> s)"

definition endpoint :: "server_config \<Rightarrow> str" where
  "endpoint c = format_opt (server c) @ lit '':'' @ str_of_int (port c)"

definition test_email_connection_try :: "world \<Rightarrow> str \<Rightarrow> test_result io" where
  "test_email_connection_try w provider_name =
     io_bind (io_pure (EmailConfig_init w provider_name)) (\<lambda>config.
       if \<not> validate_credentials config then
         io_return
           \<lparr>t_success = False, t_message = lit ''Email credentials not configured'',
            t_provider = provider_name, t_email = None, t_smtp_server = None,
            t_imap_server = None\<rparr>
       else
         io_bind (io_pure (get_smtp_config config)) (\<lambda>smtp_config.
         io_bind (io_call (SMTP_connect (server smtp_config) (port smtp_config))
                    (smtp_connect w (server smtp_config) (port smtp_config))) (\<lambda>_.
         io_bind (io_call SMTP_starttls (smtp_starttls w)) (\<lambda>_.
         io_bind (io_call (SMTP_login (email_address config) (email_password config))
                    (smtp_login w (email_address config) (email_password config))) (\<lambda>_.
         io_bind (io_call SMTP_quit (smtp_quit w)) (\<lambda>_.
         io_bind (io_pure (get_imap_config config)) (\<lambda>imap_config.
         io_bind (io_call (IMAP_connect (server imap_config) (port imap_config))
                    (imap_connect w (server imap_config) (port imap_config))) (\<lambda>_.
         io_bind (io_call (IMAP_login (email_address config) (email_password config))
                    (imap_login w (email_address config) (email_password config))) (\<lambda>_.
         io_bind (io_call IMAP_logout (imap_logout w)) (\<lambda>_.
         io_return
           \<lparr>t_success = True, t_message = lit ''Email connection successful'',
            t_provider = provider_name, t_email = Some (email_address config),
            t_smtp_server = Some (endpoint smtp_config),
            t_imap_server = Some (endpoint imap_config)\<rparr>))))))))))"

definition test_email_connection_except :: "str \<Rightarrow> exn \<Rightarrow> test_result" where
  "test_email_connection_except provider_name e =
     \<lparr>t_success = False, t_message = lit ''Connection failed: '' @ exn_str e,
      t_provider = provider_name, t_email = None, t_smtp_server = None, t_imap_server = None\<rparr>"

definition test_email_connection_helper :: "world \<Rightarrow> str \<Rightarrow> event list \<times> test_result" where
  "test_email_connection_helper w provider_name =
     io_try (test_email_connection_try w provider_name)
       (test_email_connection_except provider_name)"

subsection \<open>The four tools\<close>

text \<open>
  \<open>d[k]\<close> for a key that is not in every result dictionary: \<open>KeyError\<close> when it is
  missing.
\<close>

definition subscript :: "string \<Rightarrow> 'a option \<Rightarrow> exn + 'a" where
  "subscript k v = (case v of None \<Rightarrow> Inl (KeyError k) | Some x \<Rightarrow> Inr x)"

text \<open>
  The marks that open the lines of the tools' replies, as the code points of the source
  file.
\<close>

definition mark_ok :: str where "mark_ok = [0xE2, 0x153, 0x2026]"
definition mark_fail :: str where "mark_fail = [0xE2, 0x152]"
definition mark_mail :: str where "mark_mail = [0x11F, 0x178, 0x201C, 0xA7]"
definition mark_time :: str where "mark_time = [0xE2, 0xB0]"
definition mark_subject :: str where "mark_subject = [0x11F, 0x178, 0x201C]"
definition mark_date :: str where "mark_date = [0x11F, 0x178, 0x201C, 0x2026]"
definition mark_text :: str where "mark_text = [0x11F, 0x178, 0x2019, 0xAC]"
definition mark_inbox :: str where "mark_inbox = [0x11F, 0x178, 0x201C, 0xAC]"
definition mark_empty :: str where "mark_empty = [0x11F, 0x178, 0x201C, 0xAD]"
definition mark_provider :: str where "mark_provider = [0x11F, 0x178, 0x152]"
definition mark_out :: str where "mark_out = [0x11F, 0x178, 0x201C, 0xA4]"
definition mark_in :: str where "mark_in = [0x11F, 0x178, 0x201C, 0xA5]"
definition mark_bell :: str where "mark_bell = [0x11F, 0x178, 0x201D, 0x201D]"

text \<open>\<open>send_email\<close> (lines 264 to 292): the body of its \<open>try\<close> block, then the tool.\<close>

definition send_email_tool_try :: "world \<Rightarrow> str \<Rightarrow> str \<Rightarrow> str \<Rightarrow> str option \<Rightarrow> str io" where
  "send_email_tool_try w to_email subject body cc_email =
     io_bind (io_lift (send_email_helper w to_email subject body cc_email None False (lit ''gmail'')))
       (\<lambda>result.
         if s_success result then
           io_bind (io_pure (subscript ''timestamp'' (s_timestamp result))) (\<lambda>ts.
           io_return (mark_ok @ lit '' Email sent successfully to '' @ to_email @ [10]
                      @ mark_mail @ lit '' Subject: '' @ subject @ [10]
                      @ mark_time @ lit '' Sent at: '' @ ts))
         else io_return (mark_fail @ lit '' Failed to send email: '' @ s_message result))"

definition send_email :: "world \<Rightarrow> str \<Rightarrow> str \<Rightarrow> str \<Rightarrow> str option \<Rightarrow> event list \<times> str" where
  "send_email w to_email subject body cc_email =
     io_try (send_email_tool_try w to_email subject body cc_email)
       (\<lambda>e. mark_fail @ lit '' Error sending email: '' @ exn_str e)"

text \<open>\<open>read_recent_emails\<close> (lines 295 to 338).\<close>

definition email_limit :: "int \<Rightarrow> int" where
  "email_limit limit = min (max 1 limit) 20"

definition email_summary :: "nat \<Rightarrow> email_info \<Rightarrow> str" where
  "email_summary i email_info =
     str_of_nat i @ lit ''. '' @ mark_mail @ lit '' From: '' @ info_from email_info @ [10]
     @ lit ''   '' @ mark_subject @ lit '' Subject: '' @ info_subject email_info @ [10]
     @ lit ''   '' @ mark_date @ lit '' Date: '' @ info_date email_info @ [10]
     @ lit ''   '' @ mark_text @ lit '' Preview: '' @ info_body_preview email_info @ [10]"

fun enumerate_summaries :: "nat \<Rightarrow> email_info list \<Rightarrow> str list" where
  "enumerate_summaries i [] = []"
| "enumerate_summaries i (email_info # rest) =
     email_summary i email_info # enumerate_summaries (Suc i) rest"

fun py_join :: "str \<Rightarrow> str list \<Rightarrow> str" where
  "py_join sep [] = []"
| "py_join sep [x] = x"
| "py_join sep (x # y # ys) = x @ sep @ py_join sep (y # ys)"

definition read_recent_emails_try :: "world \<Rightarrow> int \<Rightarrow> str \<Rightarrow> str io" where
  "read_recent_emails_try w limit unread_only =
     (let unread_filter = (py_lower unread_only = lit ''true'') in
      io_bind (io_lift (read_emails_helper w (lit ''INBOX'') (email_limit limit) unread_filter (lit ''gmail'')))
        (\<lambda>result.
          if r_success result then
            io_bind (io_pure (subscript ''count'' (r_count result))) (\<lambda>count.
            if count > 0 then
              io_return (mark_inbox @ lit '' Recent Emails''
                         @ (if unread_filter then lit '' (unread only)'' else [])
                         @ lit '':'' @ [10, 10]
                         @ py_join [10] (enumerate_summaries 1 (r_emails result)))
            else
              io_return (mark_empty @ lit '' No ''
                         @ (if unread_filter then lit ''unread '' else [])
                         @ lit ''emails found in inbox''))
          else io_return (mark_fail @ lit '' Failed to read emails: '' @ r_message result)))"

definition read_recent_emails :: "world \<Rightarrow> int \<Rightarrow> str \<Rightarrow> event list \<times> str" where
  "read_recent_emails w limit unread_only =
     io_try (read_recent_emails_try w limit unread_only)
       (\<lambda>e. mark_fail @ lit '' Error reading emails: '' @ exn_str e)"

text \<open>\<open>test_email_connection\<close> (lines 341 to 362).\<close>

definition test_email_connection_tool_try :: "world \<Rightarrow> str io" where
  "test_email_connection_tool_try w =
     io_bind (io_lift (test_email_connection_helper w (lit ''gmail''))) (\<lambda>result.
       if t_success result then
         io_bind (io_pure (subscript ''email'' (t_email result))) (\<lambda>email.
         io_bind (io_pure (subscript ''smtp_server'' (t_smtp_server result))) (\<lambda>smtp_server.
         io_bind (io_pure (subscript ''imap_server'' (t_imap_server result))) (\<lambda>imap_server.
         io_return (mark_ok @ lit '' Email Connection Successful!'' @ [10]
                    @ mark_mail @ lit '' Email: '' @ format_opt email @ [10]
                    @ mark_provider @ lit '' Provider: '' @ t_provider result @ [10]
                    @ mark_out @ lit '' SMTP: '' @ smtp_server @ [10]
                    @ mark_in @ lit '' IMAP: '' @ imap_server))))
       else io_return (mark_fail @ lit '' Email Connection Failed: '' @ t_message result))"

definition test_email_connection :: "world \<Rightarrow> event list \<times> str" where
  "test_email_connection w =
     io_try (test_email_connection_tool_try w)
       (\<lambda>e. mark_fail @ lit '' Connection test error: '' @ exn_str e)"

text \<open>\<open>send_quick_notification\<close> (lines 365 to 403).\<close>

definition notification_body :: "str \<Rightarrow> str \<Rightarrow> str" where
  "notification_body timestamp message =
     [10] @ mark_bell @ lit '' Notification from WatsonX Agent'' @ [10, 10]
     @ mark_date @ lit '' Time: '' @ timestamp @ [10]
     @ mark_text @ lit '' Message: '' @ message @ [10, 10]
     @ lit ''---'' @ [10]
     @ lit ''This is an automated notification sent by WatsonX Orchestrate Agent.'' @ [10]
     @ lit ''        ''"

definition send_quick_notification_try :: "world \<Rightarrow> str \<Rightarrow> str \<Rightarrow> str io" where
  "send_quick_notification_try w recipient message =
     (let timestamp = now_strftime w;
          subject = lit ''Notification - '' @ timestamp;
          body = notification_body timestamp message
      in io_bind (io_lift (send_email_helper w recipient subject (py_strip body) None None False (lit ''gmail'')))
           (\<lambda>result.
             if s_success result then
               io_return (mark_bell @ lit '' Notification sent successfully to '' @ recipient @ [10]
                          @ mark_text @ lit '' Message: '' @ message)
             else io_return (mark_fail @ lit '' Failed to send notification: '' @ s_message result)))"

definition send_quick_notification :: "world \<Rightarrow> str \<Rightarrow> str \<Rightarrow> event list \<times> str" where
  "send_quick_notification w recipient message =
     io_try (send_quick_notification_try w recipient message)
       (\<lambda>e. mark_fail @ lit '' Error sending notification: '' @ exn_str e)"

subsection \<open>Names used in the statements\<close>




text \<open>The recipients that a \<open>cc_email\<close> or \<open>bcc_email\<close> argument adds: none when it is \<open>None\<close> or empty.\<close>

definition cc_list :: "str option \<Rightarrow> str list" where
  "cc_list v = (case v of None \<Rightarrow> [] | Some s \<Rightarrow> if s \<noteq> [] then split_on 44 s else [])"

text \<open>The identifiers fetched in a run, in the order of the fetches.\<close>

fun fetched_ids :: "event list \<Rightarrow> bytes list" where
  "fetched_ids [] = []"
| "fetched_ids (IMAP_fetch email_id # evs) = email_id # fetched_ids evs"
| "fetched_ids (ev # evs) = fetched_ids evs"

subsection \<open>Example worlds\<close>

text \<open>
  A world where the credentials are set, every call succeeds, the search lists the
  identifiers 1 to 5 and every message is a plain one whose payload is its identifier; and
  three variants of it: the SMTP server rejects the login; \<open>EMAIL_ADDRESS\<close> is unset and
  \<open>SMTP_PORT\<close> is not a number; the second fetch of a session fails.
\<close>

definition example_env :: environ where
  "example_env =
     \<lparr>EMAIL_ADDRESS = Some (lit ''me@example.com''), EMAIL_PASSWORD = Some (lit ''app-password''),
      SMTP_SERVER = None, SMTP_PORT = None, IMAP_SERVER = None, IMAP_PORT = None\<rparr>"

definition plain_message :: "bytes \<Rightarrow> email_message" where
  "plain_message raw =
     \<lparr>hdr_Subject = Some (lit ''Hello''), hdr_From = None, hdr_Date = None, hdr_To = None,
      is_multipart = False, walk = [], get_payload = Some raw\<rparr>"

definition example_world :: world where
  "example_world =
     \<lparr>getenv = example_env,
      now_isoformat = lit ''2024-01-01T00:00:00'',
      now_strftime = lit ''2024-01-01 00:00:00'',
      smtp_connect = (\<lambda>host prt. None),
      smtp_starttls = None,
      smtp_login = (\<lambda>user password. None),
      smtp_sendmail = (\<lambda>sender recipients msg. None),
      smtp_quit = None,
      imap_connect = (\<lambda>host prt. None),
      imap_login = (\<lambda>user password. None),
      imap_select = (\<lambda>folder. None),
      imap_search = (\<lambda>criteria. Inr (lit ''OK'', [Some [0x31, 0x20, 0x32, 0x20, 0x33, 0x20, 0x34, 0x20, 0x35]])),
      imap_fetch = (\<lambda>n email_id. Inr (lit ''OK'', [Tuple [] email_id])),
      imap_logout = None,
      message_from_bytes = plain_message\<rparr>"

definition auth_failure_world :: world where
  "auth_failure_world =
     example_world\<lparr>smtp_login := (\<lambda>user password. Some (SMTPAuthenticationError (lit ''(535, rejected)'')))\<rparr>"

definition bad_port_world :: world where
  "bad_port_world =
     example_world\<lparr>getenv := example_env\<lparr>EMAIL_ADDRESS := None, SMTP_PORT := Some (lit ''abc'')\<rparr>\<rparr>"


text \<open>The summary of the example message whose identifier is the one character \<open>c\<close>.\<close>

definition summary_of :: "nat \<Rightarrow> email_info" where
  "summary_of c =
     \<lparr>info_id = [c], info_subject = lit ''Hello'', info_from = lit ''Unknown Sender'',
      info_date = lit ''Unknown Date'', info_to = Some (lit ''me@example.com''),
      info_body_preview = [c]\<rparr>"

subsection \<open>Properties\<close>

lemmas io_defs = io_return_def io_pure_def io_call_def io_call_val_def io_bind_def io_try_def io_lift_def

lemmas world_defs = example_world_def example_env_def plain_message_def

lemmas config_defs = EmailConfig_init_def getenv_int_def get_smtp_config_def get_imap_config_def
  dict_get_or_gmail_def validate_credentials_def truthy_def py_lower_def lower_char_def

lemma io_bindE:
  assumes "io_bind m f = (tr, Inr y)"
  obtains tr1 x tr2 where "m = (tr1, Inr x)" "f x = (tr2, Inr y)" "tr = tr1 @ tr2"
  using assms by (auto simp: io_bind_def split: prod.splits sum.splits)

lemma io_try_success:
  assumes "P (snd (io_try m handler))" "\<And>e. \<not> P (handler e)"
  obtains tr res where "m = (tr, Inr res)" "io_try m handler = (tr, res)" "P res"
  using assms by (cases m; cases "snd m") (auto simp: io_try_def)

lemma io_call_Inr: "io_call ev outcome = (tr, Inr x) \<longleftrightarrow> outcome = None \<and> tr = [ev]"
  by (auto simp: io_call_def split: option.splits)

lemmas io_eqs = io_return_def io_pure_def io_call_val_def io_call_Inr

subsubsection \<open>The decoder\<close>

lemma cp2_lt: "b < 0xE0 \<Longrightarrow> is_cont c \<Longrightarrow> cp2 b c < 0x800"
  unfolding cp2_def is_cont_def by linarith

lemma radix64_digits:
  fixes x y z :: nat
  assumes "y \<le> 63" "z \<le> 63" and eq: "x * 4096 + y * 64 + z = 65533"
  shows "x = 15 \<and> y = 63 \<and> z = 61"
proof -
  have r: "y * 64 + z < 4096" using assms(1,2) by linarith
  have "(x * 4096 + (y * 64 + z)) div 4096 = x" using r by simp
  with eq have x: "x = 15" by (simp add: add.assoc)
  with eq have eq2: "y * 64 + z = 4093" by simp
  have "(y * 64 + z) div 64 = y" using assms(2) by simp
  with eq2 have y: "y = 63" by simp
  with eq2 have "z = 61" by simp
  with x y show ?thesis by simp
qed

lemma cp3_fffd:
  assumes "0xE0 \<le> b" "is_cont c" "is_cont d" "cp3 b c d = 0xFFFD"
  shows "b = 0xEF \<and> c = 0xBF \<and> d = 0xBD"
proof -
  have "c - 0x80 \<le> 63" "d - 0x80 \<le> 63"
    using assms(2,3) unfolding is_cont_def by linarith+
  from radix64_digits [OF this] assms(4)
  have "b - 0xE0 = 15 \<and> c - 0x80 = 63 \<and> d - 0x80 = 61" by (simp add: cp3_def)
  with assms(1-3) show ?thesis unfolding is_cont_def by linarith
qed

lemma second_ok_cont: "second_ok b c \<Longrightarrow> is_cont c"
  by (simp add: second_ok_def)

lemma cp4_ge:
  assumes "0xF0 \<le> b" "second_ok b c"
  shows "0x10000 \<le> cp4 b c d e"
proof (cases "b = 0xF0")
  case True
  with assms have "0x90 \<le> c" by (simp add: second_ok_def is_cont_def split: if_splits)
  then have "16 * 4096 \<le> (c - 0x80) * 4096" by (intro mult_le_mono1) simp
  then show ?thesis unfolding cp4_def by simp
next
  case False
  with assms have "1 \<le> b - 0xF0" by simp
  then have "1 * 262144 \<le> (b - 0xF0) * 262144" by (intro mult_le_mono1)
  then show ?thesis unfolding cp4_def by simp
qed

lemma utf8_next_suffix: "suffix (snd (utf8_next b bs)) bs"
  unfolding utf8_next_def by (simp split: list.split add: suffix_ConsI)

lemma byte_of_unat: "unat (b::8 word) = n \<Longrightarrow> b = of_nat n"
  by auto

lemma utf8_next_fffd:
  assumes "fst (utf8_next b bs) = Some 0xFFFD"
  shows "prefix [0xEF, 0xBF, 0xBD] (b # bs)"
proof -
  have no2: "cp2 (unat b) c \<noteq> 0xFFFD" if "unat b < 0xE0" "is_cont c" for c
    using cp2_lt [OF that] by simp
  have no4: "cp4 (unat b) c d e \<noteq> 0xFFFD" if "0xF0 \<le> unat b" "second_ok (unat b) c" for c d e
    using cp4_ge [OF that, of d e] by simp
  from assms obtain c d ds where bs: "bs = c # d # ds"
    and rng: "0xE0 \<le> unat b" "is_cont (unat c)" "is_cont (unat d)"
    and cp: "cp3 (unat b) (unat c) (unat d) = 0xFFFD"
    unfolding utf8_next_def
    by (auto split: if_splits list.splits simp: no2 no4 dest: second_ok_cont)
  from cp3_fffd [OF rng cp] have "b = 0xEF" "c = 0xBF" "d = 0xBD"
    by (auto dest: byte_of_unat)
  with bs show ?thesis by simp
qed

lemma utf8_scan_length: "length (utf8_scan bs) \<le> length bs"
proof (induction bs rule: utf8_scan.induct)
  case 1
  then show ?case by simp
next
  case (2 b bs)
  have "length (utf8_scan (snd (utf8_next b bs))) \<le> length bs"
    using 2 utf8_next_length [of b bs] by simp
  then show ?case by simp
qed

lemma utf8_scan_fffd:
  "Some 0xFFFD \<in> set (utf8_scan bs) \<Longrightarrow> sublist [0xEF, 0xBF, 0xBD] bs"
proof (induction bs rule: utf8_scan.induct)
  case 1
  then show ?case by simp
next
  case (2 b bs)
  show ?case
  proof (cases "fst (utf8_next b bs) = Some 0xFFFD")
    case True
    then show ?thesis by (intro prefix_imp_sublist utf8_next_fffd)
  next
    case False
    with 2 have "sublist [0xEF, 0xBF, 0xBD] (snd (utf8_next b bs))" by simp
    moreover have "sublist (snd (utf8_next b bs)) (b # bs)"
      by (intro suffix_imp_sublist suffix_ConsI utf8_next_suffix)
    ultimately show ?thesis by (rule sublist_order.order.trans)
  qed
qed

lemma set_map_filter_id: "set (List.map_filter id xs) = {x. Some x \<in> set xs}"
  by (induction xs) (auto simp: List.map_filter_simps split: option.splits)

lemma length_map_filter_id: "length (List.map_filter id xs) \<le> length xs"
  by (induction xs) (auto simp: List.map_filter_simps split: option.splits)

subsubsection \<open>The configuration\<close>

lemma py_int_abc: "py_int (lit ''abc'') = Inl (ValueError_int (lit ''abc''))"
  by (simp add: py_int_def lit_def is_int_space_def is_space_def unsigned_value_def is_digit_def)

lemma init_fields:
  "EmailConfig_init w p = Inr config \<Longrightarrow>
     email_address config = EMAIL_ADDRESS (getenv w) \<and>
     email_password config = EMAIL_PASSWORD (getenv w)"
  by (auto simp: EmailConfig_init_def split: sum.splits)

lemma init_valid:
  "EmailConfig_init w p = Inr config \<Longrightarrow>
     validate_credentials config =
       (truthy (EMAIL_ADDRESS (getenv w)) \<and> truthy (EMAIL_PASSWORD (getenv w)))"
  by (simp add: validate_credentials_def init_fields)

subsubsection \<open>The sender\<close>

lemma except_fail: "\<not> s_success (send_email_except e)"
  by (cases e) simp_all

lemma extend_split_eq: "extend_split rs v = rs @ cc_list v"
  by (simp add: extend_split_def cc_list_def split: option.splits)

lemma send_no_credentials:
  assumes "\<not> (truthy (EMAIL_ADDRESS (getenv w)) \<and> truthy (EMAIL_PASSWORD (getenv w)))"
  shows "fst (send_email_helper w to_email subject body cc bcc html p) = [] \<and>
         \<not> s_success (snd (send_email_helper w to_email subject body cc bcc html p)) \<and>
         (\<forall>config. EmailConfig_init w p = Inr config \<longrightarrow>
            s_message (snd (send_email_helper w to_email subject body cc bcc html p)) =
              lit ''Email credentials not configured. Check EMAIL_ADDRESS and EMAIL_PASSWORD environment variables.'')"
proof (cases "EmailConfig_init w p")
  case (Inl e)
  then show ?thesis
    by (simp add: send_email_helper_def send_email_try_def io_defs except_fail)
next
  case (Inr config)
  with assms have "\<not> validate_credentials config" by (simp add: init_valid)
  with Inr show ?thesis
    by (simp add: send_email_helper_def send_email_try_def io_defs)
qed

lemma send_success_trace:
  "s_success (snd (send_email_helper w a s b cc bcc h p)) \<Longrightarrow>
     \<exists>host prt user pw sender rcpts msg.
        fst (send_email_helper w a s b cc bcc h p) =
          [SMTP_connect host prt, SMTP_starttls, SMTP_login user pw,
           SMTP_sendmail sender rcpts msg, SMTP_quit]"
  by (auto simp add: send_email_helper_def send_email_try_def io_defs Let_def except_fail
      split: sum.splits option.splits if_splits)

lemma send_success_timestamp:
  "s_success (snd (send_email_helper w a s b cc bcc h p)) \<Longrightarrow>
     s_timestamp (snd (send_email_helper w a s b cc bcc h p)) = Some (now_isoformat w)"
  by (auto simp add: send_email_helper_def send_email_try_def io_defs Let_def except_fail
      split: sum.splits option.splits if_splits)

lemma send_failure_message:
  assumes "\<not> s_success (snd (send_email_helper w a s b cc bcc h p))"
  shows "s_message (snd (send_email_helper w a s b cc bcc h p)) \<noteq> []"
proof (cases "send_email_try w a s b cc bcc h p")
  case (Pair tr r)
  show ?thesis
  proof (cases r)
    case (Inl e)
    with Pair show ?thesis
      by (cases e) (simp_all add: send_email_helper_def io_try_def lit_def)
  next
    case (Inr res)
    with Pair assms have "\<not> s_success res" by (simp add: send_email_helper_def io_try_def)
    with Pair Inr have "s_message res \<noteq> []"
      unfolding send_email_try_def Let_def
      by (auto elim!: io_bindE simp: io_eqs lit_def split: if_splits)
    with Pair Inr show ?thesis by (simp add: send_email_helper_def io_try_def)
  qed
qed

subsubsection \<open>The reader\<close>

lemma read_except_fail: "\<not> r_success (read_emails_except e) \<and> r_emails (read_emails_except e) = [] \<and> r_count (read_emails_except e) = None"
  by (cases e) simp_all

lemma build_email_info_id:
  "build_email_info config email_id m = Inr info \<Longrightarrow> py_decode Strict email_id = Inr (info_id info)"
  by (auto simp: build_email_info_def split: sum.splits)

lemma fetch_loop_returns:
  "fetch_loop w config n ids acc = (tr, Inr emails) \<Longrightarrow>
     tr = map IMAP_fetch ids \<and>
     (\<exists>new. emails = acc @ new \<and>
        subseq (map (Inr \<circ> info_id) new) (map (py_decode Strict) ids))"
proof (induction ids arbitrary: n acc tr emails)
  case Nil
  then show ?case by (simp add: io_defs)
next
  case (Cons email_id rest)
  from Cons.prems obtain result message_data where
    f: "imap_fetch w n email_id = Inr (result, message_data)"
    by (auto simp: io_defs split: sum.splits)
  show ?case
  proof (cases "result = lit ''OK''")
    case True
    with Cons.prems f obtain raw info tr' where
      raw: "fetched_raw message_data = Inr raw" and
      info: "build_email_info config email_id (message_from_bytes w raw) = Inr info" and
      rec: "fetch_loop w config (Suc n) rest (acc @ [info]) = (tr', Inr emails)" and
      tr: "tr = IMAP_fetch email_id # tr'"
      by (auto simp: io_defs split: sum.splits prod.splits)
    from Cons.IH [OF rec] obtain new where
      new: "tr' = map IMAP_fetch rest" "emails = (acc @ [info]) @ new"
        "subseq (map (Inr \<circ> info_id) new) (map (py_decode Strict) rest)"
      by blast
    have e1: "map (py_decode Strict) (email_id # rest) =
            Inr (info_id info) # map (py_decode Strict) rest"
      using build_email_info_id [OF info] by simp
    have e2: "map (Inr \<circ> info_id) (info # new) =
            Inr (info_id info) # map (Inr \<circ> info_id) new"
      by simp
    have "subseq (map (Inr \<circ> info_id) (info # new))
        (map (py_decode Strict) (email_id # rest))"
      unfolding e1 e2 by (rule subseq_Cons2 [OF new(3)])
    then show ?thesis
    proof (intro conjI exI [of _ "info # new"])
      show "tr = map IMAP_fetch (email_id # rest)" using tr new(1) by simp
      show "emails = acc @ info # new" using new(2) by simp
    qed
  next
    case False
    with Cons.prems f obtain tr' where
      rec: "fetch_loop w config (Suc n) rest acc = (tr', Inr emails)" and
      tr: "tr = IMAP_fetch email_id # tr'"
      by (auto simp: io_defs split: sum.splits prod.splits)
    from Cons.IH [OF rec] obtain new where
      new: "tr' = map IMAP_fetch rest" "emails = acc @ new"
        "subseq (map (Inr \<circ> info_id) new) (map (py_decode Strict) rest)"
      by blast
    have "subseq (map (Inr \<circ> info_id) new) (map (py_decode Strict) (email_id # rest))"
      using new(3) by (simp only: list.map) (rule list_emb_Cons)
    then show ?thesis
    proof (intro conjI exI [of _ new])
      show "tr = map IMAP_fetch (email_id # rest)" using tr new(1) by simp
      show "emails = acc @ new" using new(2) by simp
    qed
  qed
qed


lemma fetched_ids_append: "fetched_ids (xs @ ys) = fetched_ids xs @ fetched_ids ys"
  by (induction xs rule: fetched_ids.induct) simp_all

lemma fetched_ids_map: "fetched_ids (map IMAP_fetch ids) = ids"
  by (induction ids) simp_all

lemma rev_last_slice: "1 \<le> limit \<Longrightarrow> rev (last_slice limit xs) = take (nat limit) (rev xs)"
proof -
  assume "1 \<le> limit"
  then have "nat (max 0 (int (length xs) - limit)) = length xs - nat limit"
    by linarith
  with \<open>1 \<le> limit\<close> show ?thesis
    by (simp add: last_slice_def take_rev)
qed

lemma last_slice_zero: "last_slice 0 xs = xs"
  by (simp add: last_slice_def)

lemma read_returns:
  assumes "read_emails_try w folder limit unread_only p = (tr, Inr res)" and "r_success res"
  obtains config result message_ids email_ids pre where
    "imap_search w (if unread_only then lit ''UNSEEN'' else lit ''ALL'') = Inr (result, message_ids)"
    "first_split message_ids = Inr email_ids"
    "fetch_loop w config 0 (rev (last_slice limit email_ids)) [] =
       (map IMAP_fetch (rev (last_slice limit email_ids)), Inr (r_emails res))"
    "tr = pre @ map IMAP_fetch (rev (last_slice limit email_ids)) @ [IMAP_logout]"
    "fetched_ids pre = []"
proof -
  from assms obtain config result message_ids email_ids mid where
    s: "imap_search w (if unread_only then lit ''UNSEEN'' else lit ''ALL'') = Inr (result, message_ids)"
    and f: "first_split message_ids = Inr email_ids"
    and l: "fetch_loop w config 0 (rev (last_slice limit email_ids)) [] = (mid, Inr (r_emails res))"
    and t: "tr = [IMAP_connect (server (case get_imap_config config of Inr c \<Rightarrow> c))
                    (port (case get_imap_config config of Inr c \<Rightarrow> c)),
                  IMAP_login (email_address config) (email_password config),
                  IMAP_select folder,
                  IMAP_search (if unread_only then lit ''UNSEEN'' else lit ''ALL'')] @ mid @ [IMAP_logout]"
    unfolding read_emails_try_def Let_def
    by (auto elim!: io_bindE simp: io_eqs split: if_splits)
  from fetch_loop_returns [OF l] have "mid = map IMAP_fetch (rev (last_slice limit email_ids))"
    by simp
  with s f l t that show ?thesis by simp
qed

lemma read_success_trace:
  assumes "r_success (snd (read_emails_helper w f l u p))"
  shows "\<exists>host prt user pw crit ids.
        fst (read_emails_helper w f l u p) =
          [IMAP_connect host prt, IMAP_login user pw, IMAP_select f, IMAP_search crit]
          @ map IMAP_fetch ids @ [IMAP_logout]"
proof -
  obtain tr r where run: "read_emails_try w f l u p = (tr, r)" by (cases "read_emails_try w f l u p")
  with assms obtain res where r: "r = Inr res" and ok: "r_success res"
    by (cases r) (auto simp: read_emails_helper_def io_try_def read_except_fail)
  from run r ok show ?thesis
    apply (simp add: read_emails_helper_def io_try_def)
    apply (auto simp add: read_emails_try_def io_defs Let_def
      split: sum.splits option.splits if_splits prod.splits dest!: fetch_loop_returns)
    done
qed


lemma read_success_count:
  assumes "r_success (snd (read_emails_helper w f l u p))"
  shows "r_count (snd (read_emails_helper w f l u p)) =
           Some (length (r_emails (snd (read_emails_helper w f l u p))))"
proof -
  from assms obtain tr res where
    run: "read_emails_try w f l u p = (tr, Inr res)" and
    res: "read_emails_helper w f l u p = (tr, res)" and ok: "r_success res"
    unfolding read_emails_helper_def
    by (rule io_try_success) (simp add: read_except_fail)
  from run ok have "r_count res = Some (length (r_emails res))"
    unfolding read_emails_try_def Let_def
    by (auto elim!: io_bindE simp: io_eqs split: if_splits)
  with res show ?thesis by simp
qed

lemma read_failure_message:
  assumes "\<not> r_success (snd (read_emails_helper w f l u p))"
  shows "r_message (snd (read_emails_helper w f l u p)) \<noteq> []"
proof (cases "read_emails_try w f l u p")
  case (Pair tr r)
  show ?thesis
  proof (cases r)
    case (Inl e)
    with Pair show ?thesis
      by (cases e) (simp_all add: read_emails_helper_def io_try_def lit_def)
  next
    case (Inr res)
    with Pair assms have "\<not> r_success res" by (simp add: read_emails_helper_def io_try_def)
    with Pair Inr have "r_message res \<noteq> []"
      unfolding read_emails_try_def Let_def
      by (auto elim!: io_bindE simp: io_eqs lit_def split: if_splits)
    with Pair Inr show ?thesis by (simp add: read_emails_helper_def io_try_def)
  qed
qed

lemma read_no_credentials:
  assumes "\<not> (truthy (EMAIL_ADDRESS (getenv w)) \<and> truthy (EMAIL_PASSWORD (getenv w)))"
  shows "fst (read_emails_helper w folder limit unread_only p) = [] \<and>
         \<not> r_success (snd (read_emails_helper w folder limit unread_only p)) \<and>
         (\<forall>config. EmailConfig_init w p = Inr config \<longrightarrow>
            r_message (snd (read_emails_helper w folder limit unread_only p)) =
              lit ''Email credentials not configured.'')"
proof (cases "EmailConfig_init w p")
  case (Inl e)
  then show ?thesis
    by (simp add: read_emails_helper_def read_emails_try_def io_defs read_except_fail)
next
  case (Inr config)
  with assms have "\<not> validate_credentials config" by (simp add: init_valid)
  with Inr show ?thesis
    by (simp add: read_emails_helper_def read_emails_try_def io_defs)
qed

subsubsection \<open>The connection test\<close>

lemma test_except_fail: "\<not> t_success (test_email_connection_except p e)"
  by (simp add: test_email_connection_except_def)

lemma test_success_keys:
  assumes "t_success (snd (test_email_connection_helper w p))"
  shows "t_email (snd (test_email_connection_helper w p)) \<noteq> None \<and>
     t_smtp_server (snd (test_email_connection_helper w p)) \<noteq> None \<and>
     t_imap_server (snd (test_email_connection_helper w p)) \<noteq> None"
proof -
  from assms obtain tr res where
    run: "test_email_connection_try w p = (tr, Inr res)" and
    res: "test_email_connection_helper w p = (tr, res)" and ok: "t_success res"
    unfolding test_email_connection_helper_def
    by (rule io_try_success) (rule test_except_fail)
  from run ok have "t_email res \<noteq> None \<and> t_smtp_server res \<noteq> None \<and> t_imap_server res \<noteq> None"
    unfolding test_email_connection_try_def
    by (auto elim!: io_bindE simp: io_return_def split: if_splits)
  with res show ?thesis by simp
qed

lemma test_failure_message:
  assumes "\<not> t_success (snd (test_email_connection_helper w p))"
  shows "t_message (snd (test_email_connection_helper w p)) \<noteq> []"
proof (cases "test_email_connection_try w p")
  case (Pair tr r)
  show ?thesis
  proof (cases r)
    case (Inl e)
    with Pair show ?thesis
      by (simp add: test_email_connection_helper_def io_try_def test_email_connection_except_def lit_def)
  next
    case (Inr res)
    with Pair assms have "\<not> t_success res" by (simp add: test_email_connection_helper_def io_try_def)
    with Pair Inr have "t_message res \<noteq> []"
      unfolding test_email_connection_try_def Let_def
      by (auto elim!: io_bindE simp: io_eqs lit_def split: if_splits)
    with Pair Inr show ?thesis by (simp add: test_email_connection_helper_def io_try_def)
  qed
qed

lemma test_no_credentials:
  assumes "\<not> (truthy (EMAIL_ADDRESS (getenv w)) \<and> truthy (EMAIL_PASSWORD (getenv w)))"
  shows "fst (test_email_connection_helper w p) = [] \<and>
         \<not> t_success (snd (test_email_connection_helper w p)) \<and>
         (\<forall>config. EmailConfig_init w p = Inr config \<longrightarrow>
            t_message (snd (test_email_connection_helper w p)) =
              lit ''Email credentials not configured'')"
proof (cases "EmailConfig_init w p")
  case (Inl e)
  then show ?thesis
    by (simp add: test_email_connection_helper_def test_email_connection_try_def io_defs
        test_except_fail)
next
  case (Inr config)
  with assms have "\<not> validate_credentials config" by (simp add: init_valid)
  with Inr show ?thesis
    by (simp add: test_email_connection_helper_def test_email_connection_try_def io_defs)
qed

subsubsection \<open>The tools\<close>

lemma send_email_returns:
  "snd (send_email_tool_try w a s b cc) = Inr (snd (send_email w a s b cc)) \<and>
   (\<not> s_success (snd (send_email_helper w a s b cc None False (lit ''gmail''))) \<longrightarrow>
      snd (send_email w a s b cc) =
        mark_fail @ lit '' Failed to send email: ''
          @ s_message (snd (send_email_helper w a s b cc None False (lit ''gmail''))))"
proof (cases "send_email_helper w a s b cc None False (lit ''gmail'')")
  case (Pair tr res)
  show ?thesis
  proof (cases "s_success res")
    case True
    with Pair send_success_timestamp [of w a s b cc None False "lit ''gmail''"]
    show ?thesis
      by (simp add: send_email_def send_email_tool_try_def io_defs subscript_def)
  next
    case False
    with Pair show ?thesis
      by (simp add: send_email_def send_email_tool_try_def io_defs)
  qed
qed

lemma send_quick_notification_returns:
  "snd (send_quick_notification_try w r m) = Inr (snd (send_quick_notification w r m)) \<and>
   (\<not> s_success (snd (send_email_helper w r (lit ''Notification - '' @ now_strftime w)
          (py_strip (notification_body (now_strftime w) m)) None None False (lit ''gmail''))) \<longrightarrow>
      snd (send_quick_notification w r m) =
        mark_fail @ lit '' Failed to send notification: ''
          @ s_message (snd (send_email_helper w r (lit ''Notification - '' @ now_strftime w)
              (py_strip (notification_body (now_strftime w) m)) None None False (lit ''gmail''))))"
  by (cases "send_email_helper w r (lit ''Notification - '' @ now_strftime w)
          (py_strip (notification_body (now_strftime w) m)) None None False (lit ''gmail'')")
     (simp add: send_quick_notification_def send_quick_notification_try_def io_defs Let_def)

lemma read_recent_emails_returns:
  "snd (read_recent_emails_try w n u) = Inr (snd (read_recent_emails w n u)) \<and>
   (\<not> r_success (snd (read_emails_helper w (lit ''INBOX'') (email_limit n)
          (py_lower u = lit ''true'') (lit ''gmail''))) \<longrightarrow>
      snd (read_recent_emails w n u) =
        mark_fail @ lit '' Failed to read emails: ''
          @ r_message (snd (read_emails_helper w (lit ''INBOX'') (email_limit n)
              (py_lower u = lit ''true'') (lit ''gmail''))))"
proof (cases "read_emails_helper w (lit ''INBOX'') (email_limit n) (py_lower u = lit ''true'') (lit ''gmail'')")
  case (Pair tr res)
  show ?thesis
  proof (cases "r_success res")
    case True
    with Pair read_success_count [of w "lit ''INBOX''" "email_limit n" "py_lower u = lit ''true''" "lit ''gmail''"]
    show ?thesis
      by (simp add: read_recent_emails_def read_recent_emails_try_def io_defs subscript_def Let_def)
  next
    case False
    with Pair show ?thesis
      by (simp add: read_recent_emails_def read_recent_emails_try_def io_defs Let_def)
  qed
qed

lemma test_email_connection_returns:
  "snd (test_email_connection_tool_try w) = Inr (snd (test_email_connection w)) \<and>
   (\<not> t_success (snd (test_email_connection_helper w (lit ''gmail''))) \<longrightarrow>
      snd (test_email_connection w) =
        mark_fail @ lit '' Email Connection Failed: ''
          @ t_message (snd (test_email_connection_helper w (lit ''gmail''))))"
proof (cases "test_email_connection_helper w (lit ''gmail'')")
  case (Pair tr res)
  show ?thesis
  proof (cases "t_success res")
    case True
    with Pair test_success_keys [of w "lit ''gmail''"]
    show ?thesis
      by (auto simp add: test_email_connection_def test_email_connection_tool_try_def io_defs subscript_def)
  next
    case False
    with Pair show ?thesis
      by (simp add: test_email_connection_def test_email_connection_tool_try_def io_defs)
  qed
qed

subsubsection \<open>Traces\<close>









subsubsection \<open>Runs in the example worlds\<close>

lemma lit_eq_Nil: "lit s = [] \<longleftrightarrow> s = []"
  by (simp add: lit_def)

lemma example_config:
  "EmailConfig_init example_world (lit ''gmail'') =
     Inr \<lparr>provider = lit ''gmail'',
          email_address = Some (lit ''me@example.com''),
          email_password = Some (lit ''app-password''),
          smtp_configs =
            [(lit ''gmail'', \<lparr>server = Some (lit ''smtp.gmail.com''), port = 587\<rparr>),
             (lit ''outlook'', \<lparr>server = Some (lit ''smtp-mail.outlook.com''), port = 587\<rparr>),
             (lit ''yahoo'', \<lparr>server = Some (lit ''smtp.mail.yahoo.com''), port = 587\<rparr>),
             (lit ''custom'', \<lparr>server = None, port = 587\<rparr>)],
          imap_configs =
            [(lit ''gmail'', \<lparr>server = Some (lit ''imap.gmail.com''), port = 993\<rparr>),
             (lit ''outlook'', \<lparr>server = Some (lit ''outlook.office365.com''), port = 993\<rparr>),
             (lit ''yahoo'', \<lparr>server = Some (lit ''imap.mail.yahoo.com''), port = 993\<rparr>),
             (lit ''custom'', \<lparr>server = None, port = 993\<rparr>)]\<rparr>"
  by (simp add: world_defs config_defs lit_def)

lemma example_send_run:
  "send_email_helper example_world (lit ''a@x.org'') (lit ''Hi'') (lit ''text'')
      (Some (lit ''b@x.org,c@x.org'')) (Some (lit ''d@x.org'')) False (lit ''gmail'') =
     ([SMTP_connect (Some (lit ''smtp.gmail.com'')) 587, SMTP_starttls,
       SMTP_login (Some (lit ''me@example.com'')) (Some (lit ''app-password'')),
       SMTP_sendmail (Some (lit ''me@example.com''))
         [lit ''a@x.org'', lit ''b@x.org'', lit ''c@x.org'', lit ''d@x.org'']
         \<lparr>headers = [(''Content-Type'', Some (lit ''multipart/mixed'')),
                     (''MIME-Version'', Some (lit ''1.0'')),
                     (''From'', Some (lit ''me@example.com'')),
                     (''To'', Some (lit ''a@x.org'')),
                     (''Subject'', Some (lit ''Hi'')),
                     (''Cc'', Some (lit ''b@x.org,c@x.org''))],
          parts = [(''plain'', lit ''text'')]\<rparr>,
       SMTP_quit],
      \<lparr>s_success = True, s_message = lit ''Email sent successfully to a@x.org'',
       s_timestamp = Some (lit ''2024-01-01T00:00:00'')\<rparr>)"
  by (simp add: send_email_helper_def send_email_try_def io_defs world_defs config_defs
      compose_message_def set_header_def attach_def MIMEMultipart_def MIMEText_def
      extend_split_def lit_def Let_def)

lemma auth_failure_run:
  "send_email_helper auth_failure_world (lit ''a@x.org'') (lit ''Hi'') (lit ''text'') None None False (lit ''gmail'') =
     ([SMTP_connect (Some (lit ''smtp.gmail.com'')) 587, SMTP_starttls,
       SMTP_login (Some (lit ''me@example.com'')) (Some (lit ''app-password''))],
      \<lparr>s_success = False,
       s_message = lit ''Authentication failed. Check your email credentials or use app-specific password.'',
       s_timestamp = None\<rparr>)"
  by (simp add: auth_failure_world_def send_email_helper_def send_email_try_def io_defs world_defs config_defs
      lit_def Let_def)

lemma example_ids: "bytes_split [0x31, 0x20, 0x32, 0x20, 0x33, 0x20, 0x34, 0x20, 0x35] =
    [[0x31], [0x32], [0x33], [0x34], [0x35]]"
  by (simp add: bytes_split_def is_space_byte_def)

lemma digit_id: "unat b < 0x80 \<Longrightarrow> py_decode Strict [b] = Inr [unat b] \<and> py_decode Ignore [b] = Inr [unat b]"
  by (simp add: py_decode_def utf8_next_def)

lemma example_summary:
  "unat b < 0x80 \<Longrightarrow> email_address config = Some (lit ''me@example.com'') \<Longrightarrow>
   build_email_info config [b] (plain_message [b]) = Inr (summary_of (unat b))"
  by (simp add: build_email_info_def digit_id extract_body_def plain_message_def decode_payload_def
      or_default_def or_else_def truthy_def body_preview_def summary_of_def lit_def)

lemma example_read_run:
  "read_emails_helper example_world (lit ''INBOX'') 3 False (lit ''gmail'') =
     ([IMAP_connect (Some (lit ''imap.gmail.com'')) 993,
       IMAP_login (Some (lit ''me@example.com'')) (Some (lit ''app-password'')),
       IMAP_select (lit ''INBOX''), IMAP_search (lit ''ALL''),
       IMAP_fetch [0x35], IMAP_fetch [0x34], IMAP_fetch [0x33], IMAP_logout],
      \<lparr>r_success = True, r_message = lit ''Retrieved 3 emails from INBOX'',
       r_count = Some 3,
       r_emails = [summary_of 0x35, summary_of 0x34, summary_of 0x33]\<rparr>)"
proof -
  have w: "imap_search example_world c =
             Inr (lit ''OK'', [Some [0x31, 0x20, 0x32, 0x20, 0x33, 0x20, 0x34, 0x20, 0x35]])"
    "imap_connect example_world h n = None" "imap_login example_world u p = None"
    "imap_select example_world f = None" "imap_logout example_world = None"
    "\<And>n i. imap_fetch example_world n i = Inr (lit ''OK'', [Tuple [] i])"
    "message_from_bytes example_world = plain_message" for c h n u p f
    by (simp_all add: example_world_def)
  have m: "lit ''Retrieved '' @ str_of_nat (Suc (Suc (Suc 0))) @ lit '' emails from '' @ lit ''INBOX'' =
      lit ''Retrieved 3 emails from INBOX''"
    by (simp add: lit_def str_of_nat.simps)
  show ?thesis
    by (simp add: read_emails_helper_def read_emails_try_def example_config w io_defs
        validate_credentials_def truthy_def get_imap_config_def dict_get_or_gmail_def
        first_split_def example_ids last_slice_def fetched_raw_def example_summary m lit_eq_Nil Let_def)
qed


subsection \<open>The claims\<close>

text \<open>
  Claim C1, at the input where the code departs from it. With \<open>EMAIL_ADDRESS\<close> unset and
  \<open>SMTP_PORT=abc\<close>, the three helpers make no network call and return a failure, but the
  diagnostic is the one of \<open>int\<close>, raised while the configuration is constructed, and not
  the "not configured" one.
\<close>

theorem malformed_port_hides_not_configured:
  "send_email_helper bad_port_world to_email subject body cc bcc html (lit ''gmail'') =
     ([], \<lparr>s_success = False,
           s_message = lit ''Unexpected error: invalid literal for int() with base 10: '' @ py_repr (lit ''abc''),
           s_timestamp = None\<rparr>) \<and>
   read_emails_helper bad_port_world folder limit unread (lit ''gmail'') =
     ([], \<lparr>r_success = False,
           r_message = lit ''Unexpected error: invalid literal for int() with base 10: '' @ py_repr (lit ''abc''),
           r_count = None, r_emails = []\<rparr>) \<and>
   test_email_connection_helper bad_port_world (lit ''gmail'') =
     ([], \<lparr>t_success = False,
           t_message = lit ''Connection failed: invalid literal for int() with base 10: '' @ py_repr (lit ''abc''),
           t_provider = lit ''gmail'', t_email = None, t_smtp_server = None, t_imap_server = None\<rparr>)"
proof -
  have "EmailConfig_init bad_port_world (lit ''gmail'') = Inl (ValueError_int (lit ''abc''))"
    by (simp add: bad_port_world_def world_defs EmailConfig_init_def getenv_int_def py_int_abc)
  then show ?thesis
    by (simp add: send_email_helper_def send_email_try_def read_emails_helper_def read_emails_try_def
        test_email_connection_helper_def test_email_connection_try_def test_email_connection_except_def
        io_defs ValueError_int_def lit_def)
qed

text \<open>
  Claim C2. Whenever the sender transmits, the recipient list is \<open>to_email\<close> followed by
  the fields of the CC string and then those of the BCC string (a missing or empty string
  adds none); the headers of the message are those of \<open>MIMEMultipart()\<close> followed by
  \<open>From\<close>, \<open>To\<close>, \<open>Subject\<close>, and \<open>Cc\<close> when a CC is given; no header is \<open>Bcc\<close>.
\<close>

theorem recipients_and_headers:
  assumes "SMTP_sendmail sender recipients msg \<in> set (fst (send_email_helper w to_email subject body cc bcc html p))"
  shows "recipients = [to_email] @ cc_list cc @ cc_list bcc \<and>
         headers msg = headers MIMEMultipart @ [(''From'', sender), (''To'', Some to_email), (''Subject'', Some subject)]
             @ (if truthy cc then [(''Cc'', cc)] else []) \<and>
         ''Bcc'' \<notin> fst ` set (headers msg)"
  using assms
  by (auto simp add: send_email_helper_def send_email_try_def io_defs Let_def extend_split_eq
      compose_message_def set_header_def attach_def MIMEMultipart_def
      split: sum.splits option.splits if_splits prod.splits)

theorem recipients_and_headers_witness:
  "SMTP_sendmail (Some (lit ''me@example.com''))
       [lit ''a@x.org'', lit ''b@x.org'', lit ''c@x.org'', lit ''d@x.org'']
       \<lparr>headers = [(''Content-Type'', Some (lit ''multipart/mixed'')),
                   (''MIME-Version'', Some (lit ''1.0'')),
                   (''From'', Some (lit ''me@example.com'')),
                   (''To'', Some (lit ''a@x.org'')),
                   (''Subject'', Some (lit ''Hi'')),
                   (''Cc'', Some (lit ''b@x.org,c@x.org''))],
        parts = [(''plain'', lit ''text'')]\<rparr>
     \<in> set (fst (send_email_helper example_world (lit ''a@x.org'') (lit ''Hi'') (lit ''text'')
            (Some (lit ''b@x.org,c@x.org'')) (Some (lit ''d@x.org'')) False (lit ''gmail''))) \<and>
   [lit ''a@x.org''] @ cc_list (Some (lit ''b@x.org,c@x.org'')) @ cc_list (Some (lit ''d@x.org'')) =
     [lit ''a@x.org'', lit ''b@x.org'', lit ''c@x.org'', lit ''d@x.org'']"
proof -
  let ?msg = "\<lparr>headers = [(''Content-Type'', Some (lit ''multipart/mixed'')),
                   (''MIME-Version'', Some (lit ''1.0'')),
                   (''From'', Some (lit ''me@example.com'')),
                   (''To'', Some (lit ''a@x.org'')),
                   (''Subject'', Some (lit ''Hi'')),
                   (''Cc'', Some (lit ''b@x.org,c@x.org''))],
        parts = [(''plain'', lit ''text'')]\<rparr>"
  have mem: "SMTP_sendmail (Some (lit ''me@example.com''))
       [lit ''a@x.org'', lit ''b@x.org'', lit ''c@x.org'', lit ''d@x.org''] ?msg
     \<in> set (fst (send_email_helper example_world (lit ''a@x.org'') (lit ''Hi'') (lit ''text'')
            (Some (lit ''b@x.org,c@x.org'')) (Some (lit ''d@x.org'')) False (lit ''gmail'')))"
    by (simp add: example_send_run)
  from recipients_and_headers [OF mem] mem show ?thesis by simp
qed

text \<open>
  Claim C3, as the code has it: a send or a read that succeeds has closed its session;
  \<open>quit\<close>, or \<open>logout\<close>, is its last network call.
\<close>

theorem session_closed_on_success:
  "(s_success (snd (send_email_helper w a s b cc bcc h p)) \<longrightarrow>
      (\<exists>host prt user pw sender rcpts msg.
          fst (send_email_helper w a s b cc bcc h p) =
            [SMTP_connect host prt, SMTP_starttls, SMTP_login user pw,
             SMTP_sendmail sender rcpts msg, SMTP_quit])) \<and>
   (r_success (snd (read_emails_helper w f l u p')) \<longrightarrow>
      (\<exists>host prt user pw crit ids.
          fst (read_emails_helper w f l u p') =
            [IMAP_connect host prt, IMAP_login user pw, IMAP_select f, IMAP_search crit]
            @ map IMAP_fetch ids @ [IMAP_logout]))"
  using send_success_trace [of w a s b cc bcc h p] read_success_trace [of w f l u p']
  by blast

theorem session_closed_on_success_witness:
  "s_success (snd (send_email_helper example_world (lit ''a@x.org'') (lit ''Hi'') (lit ''text'')
        (Some (lit ''b@x.org,c@x.org'')) (Some (lit ''d@x.org'')) False (lit ''gmail''))) \<and>
   last (fst (send_email_helper example_world (lit ''a@x.org'') (lit ''Hi'') (lit ''text'')
        (Some (lit ''b@x.org,c@x.org'')) (Some (lit ''d@x.org'')) False (lit ''gmail''))) = SMTP_quit \<and>
   r_success (snd (read_emails_helper example_world (lit ''INBOX'') 3 False (lit ''gmail''))) \<and>
   last (fst (read_emails_helper example_world (lit ''INBOX'') 3 False (lit ''gmail''))) = IMAP_logout"
  using session_closed_on_success [of example_world "lit ''a@x.org''" "lit ''Hi''" "lit ''text''"
      "Some (lit ''b@x.org,c@x.org'')" "Some (lit ''d@x.org'')" False "lit ''gmail''"
      "lit ''INBOX''" 3 False "lit ''gmail''"]
  by (simp add: example_send_run example_read_run)

text \<open>
  Claim C3 as stated fails: when the server rejects the login, the sender returns with the
  session open (the connection was made, and no \<open>quit\<close> follows).
\<close>

theorem session_left_open_counterexample:
  "smtp_connect auth_failure_world (Some (lit ''smtp.gmail.com'')) 587 = None \<and>
   fst (send_email_helper auth_failure_world (lit ''a@x.org'') (lit ''Hi'') (lit ''text'')
         None None False (lit ''gmail'')) =
     [SMTP_connect (Some (lit ''smtp.gmail.com'')) 587, SMTP_starttls,
      SMTP_login (Some (lit ''me@example.com'')) (Some (lit ''app-password''))] \<and>
   SMTP_quit \<notin> set (fst (send_email_helper auth_failure_world (lit ''a@x.org'') (lit ''Hi'') (lit ''text'')
         None None False (lit ''gmail'')))"
  by (simp add: auth_failure_run) (simp add: auth_failure_world_def example_world_def)

text \<open>
  Claim C4. A read that succeeds with a limit of at least one has fetched the last
  \<open>limit\<close> identifiers of the search listing, newest first; the identifiers of its
  summaries are, in that order, those of the fetches that returned \<open>OK\<close>, and all of them
  when no fetch was skipped.
\<close>

theorem newest_first:
  assumes "1 \<le> limit"
    and "read_emails_helper w folder limit unread_only p = (tr, res)"
    and "r_success res"
    and "imap_search w (if unread_only then lit ''UNSEEN'' else lit ''ALL'') = Inr (result, Some listing # others)"
  shows "fetched_ids tr = take (nat limit) (rev (bytes_split listing)) \<and>
         subseq (map (Inr \<circ> info_id) (r_emails res))
                (map (py_decode Strict) (fetched_ids tr)) \<and>
         (length (r_emails res) = length (fetched_ids tr) \<longrightarrow>
            map (Inr \<circ> info_id) (r_emails res) = map (py_decode Strict) (fetched_ids tr))"
proof -
  from assms(2,3) have run: "read_emails_try w folder limit unread_only p = (tr, Inr res)"
    unfolding read_emails_helper_def
    by (cases "read_emails_try w folder limit unread_only p";
        cases "snd (read_emails_try w folder limit unread_only p)")
       (auto simp: io_try_def read_except_fail)
  from run assms(3) obtain config result' message_ids email_ids pre where
    s: "imap_search w (if unread_only then lit ''UNSEEN'' else lit ''ALL'') = Inr (result', message_ids)"
    and f: "first_split message_ids = Inr email_ids"
    and l: "fetch_loop w config 0 (rev (last_slice limit email_ids)) [] =
       (map IMAP_fetch (rev (last_slice limit email_ids)), Inr (r_emails res))"
    and t: "tr = pre @ map IMAP_fetch (rev (last_slice limit email_ids)) @ [IMAP_logout]"
    and p: "fetched_ids pre = []"
    by (rule read_returns)
  from s f assms(4) have ids: "email_ids = bytes_split listing"
    by (auto simp add: first_split_def)
  from t p have fetched: "fetched_ids tr = rev (last_slice limit email_ids)"
    by (simp add: fetched_ids_append fetched_ids_map)
  from fetch_loop_returns [OF l]
  have sub: "subseq (map (Inr \<circ> info_id) (r_emails res))
      (map (py_decode Strict) (rev (last_slice limit email_ids)))"
    by auto
  have same: "map (Inr \<circ> info_id) (r_emails res) = map (py_decode Strict) (fetched_ids tr)"
    if "length (r_emails res) = length (fetched_ids tr)"
    using sub that unfolding fetched by (intro subseq_same_length) simp_all
  from fetched ids sub same show ?thesis
    by (simp add: rev_last_slice [OF assms(1)])
qed

theorem newest_first_witness:
  "(1::int) \<le> 3 \<and>
   r_success (snd (read_emails_helper example_world (lit ''INBOX'') 3 False (lit ''gmail''))) \<and>
   fetched_ids (fst (read_emails_helper example_world (lit ''INBOX'') 3 False (lit ''gmail''))) =
     [[0x35], [0x34], [0x33]] \<and>
   map info_id (r_emails (snd (read_emails_helper example_world (lit ''INBOX'') 3 False (lit ''gmail'')))) =
     [[0x35], [0x34], [0x33]]"
proof -
  have s: "imap_search example_world (if False then lit ''UNSEEN'' else lit ''ALL'') =
      Inr (lit ''OK'', Some [0x31, 0x20, 0x32, 0x20, 0x33, 0x20, 0x34, 0x20, 0x35] # [])"
    by (simp add: example_world_def)
  have ok: "r_success \<lparr>r_success = True, r_message = lit ''Retrieved 3 emails from INBOX'',
       r_count = Some 3, r_emails = [summary_of 0x35, summary_of 0x34, summary_of 0x33]\<rparr>"
    by simp
  from newest_first [OF _ example_read_run ok s]
  have "fetched_ids (fst (read_emails_helper example_world (lit ''INBOX'') 3 False (lit ''gmail''))) =
      take (nat 3) (rev (bytes_split [0x31, 0x20, 0x32, 0x20, 0x33, 0x20, 0x34, 0x20, 0x35]))"
    by (simp add: example_read_run)
  then show ?thesis
    by (simp add: example_read_run example_ids summary_of_def)
qed




text \<open>
  Claim C6. The preview of a body of at most 200 characters is the body itself, with no
  marker; the preview of a longer body is its first 200 characters followed by the
  three-character marker \<open>...\<close>. The preview stored in a summary is the preview
  of the body extracted from the message.
\<close>

theorem body_preview_cap:
  "(length body \<le> 200 \<longrightarrow> body_preview body = body) \<and>
   (200 < length body \<longrightarrow> body_preview body = take 200 body @ lit ''...'') \<and>
   (build_email_info config email_id email_message = Inr info \<longrightarrow>
      (\<exists>text. extract_body email_message = Inr text \<and> info_body_preview info = body_preview text))"
  by (auto simp add: body_preview_def build_email_info_def split: sum.splits)

theorem body_preview_cap_witness:
  "length (replicate 150 (97::nat)) \<le> 200 \<and>
   body_preview (replicate 150 97) = replicate 150 97 \<and>
   200 < length (replicate 250 (97::nat)) \<and>
   body_preview (replicate 250 97) = replicate 200 97 @ [46, 46, 46] \<and>
   build_email_info \<lparr>provider = lit ''gmail'', email_address = Some (lit ''me@example.com''),
       email_password = Some (lit ''app-password''), smtp_configs = [], imap_configs = []\<rparr>
     [0x35] (plain_message [0x35]) = Inr (summary_of 0x35) \<and>
   extract_body (plain_message [0x35]) = Inr [0x35] \<and>
   info_body_preview (summary_of 0x35) = body_preview [0x35]"
proof -
  let ?config = "\<lparr>provider = lit ''gmail'', email_address = Some (lit ''me@example.com''),
       email_password = Some (lit ''app-password''), smtp_configs = [], imap_configs = []\<rparr>"
  have built: "build_email_info ?config [0x35] (plain_message [0x35]) = Inr (summary_of 0x35)"
    using example_summary [of "0x35" ?config] by simp
  have extracted: "extract_body (plain_message [0x35]) = Inr [0x35]"
    using digit_id [of "0x35"] by (simp add: extract_body_def plain_message_def decode_payload_def)
  from body_preview_cap [of "replicate 150 97"] body_preview_cap [of "replicate 250 97"]
  have "body_preview (replicate 150 97) = replicate 150 97"
    "body_preview (replicate 250 97) = replicate 200 97 @ [46, 46, 46]"
    by (simp_all add: lit_def)
  moreover from body_preview_cap [of _ ?config "[0x35]" "plain_message [0x35]" "summary_of 0x35"] built extracted
  have "info_body_preview (summary_of 0x35) = body_preview [0x35]"
    by simp
  ultimately show ?thesis using built extracted by simp
qed

text \<open>
  Claim C7, as the code has it: decoding a payload never raises; the bytes that are not
  UTF-8 are dropped and nothing is put in their place. The text is no longer than the
  payload, U+FFFD occurs in it only where the payload holds its encoding, and a payload
  that is UTF-8 decodes as it would strictly.
\<close>

theorem decode_ignore_drops:
  "\<exists>s. decode_payload (Some bs) = Inr s \<and> length s \<le> length bs \<and>
       (0xFFFD \<in> set s \<longrightarrow> sublist [0xEF, 0xBF, 0xBD] bs) \<and>
       (\<forall>t. py_decode Strict bs = Inr t \<longrightarrow> s = t)"
proof -
  let ?s = "List.map_filter id (utf8_scan bs)"
  have "decode_payload (Some bs) = Inr ?s"
    by (simp add: decode_payload_def py_decode_def)
  moreover have "length ?s \<le> length bs"
    using length_map_filter_id [of "utf8_scan bs"] utf8_scan_length [of bs] by linarith
  moreover have "0xFFFD \<in> set ?s \<longrightarrow> sublist [0xEF, 0xBF, 0xBD] bs"
    by (simp add: set_map_filter_id utf8_scan_fffd)
  moreover have "\<forall>t. py_decode Strict bs = Inr t \<longrightarrow> ?s = t"
    by (auto simp: py_decode_def split: if_splits)
  ultimately show ?thesis by blast
qed

theorem decode_ignore_drops_witness:
  "decode_payload (Some [0x41, 0xEF, 0xBF, 0xBD, 0xFF, 0x42]) = Inr [0x41, 0xFFFD, 0x42] \<and>
   sublist [0xEF, 0xBF, 0xBD] [0x41, 0xEF, 0xBF, 0xBD, 0xFF, 0x42 :: 8 word] \<and>
   py_decode Strict [0x41, 0x42] = Inr [0x41, 0x42] \<and>
   decode_payload (Some [0x41, 0x42]) = Inr [0x41, 0x42]"
  using decode_ignore_drops [of "[0x41, 0xEF, 0xBF, 0xBD, 0xFF, 0x42]"]
    decode_ignore_drops [of "[0x41, 0x42]"]
  by (auto simp add: decode_payload_def py_decode_def List.map_filter_simps utf8_next_def
      is_cont_def second_ok_def cp3_def)

text \<open>
  Claim C7 as stated fails: the body of a message whose payload is \<open>A\<close>, the byte FF, \<open>B\<close>
  is \<open>AB\<close>, where the error handler \<open>replace\<close> would give \<open>A\<close>, U+FFFD, \<open>B\<close>.
\<close>

theorem decode_replacement_counterexample:
  "extract_body (plain_message [0x41, 0xFF, 0x42]) = Inr [0x41, 0x42] \<and>
   py_decode Replace [0x41, 0xFF, 0x42] = Inr [0x41, 0xFFFD, 0x42]"
  by (simp add: extract_body_def plain_message_def decode_payload_def py_decode_def
      List.map_filter_simps utf8_next_def)



text \<open>
  Claim C9. The \<open>try\<close> block of each of the four tools returns its reply and raises
  nothing, whatever the world does, so no handler of a tool is ever entered and nothing
  leaves the tool but a string; when the helper reports a failure, the reply is the failure
  mark followed by the helper's message, which is never empty.
\<close>

theorem tools_never_raise:
  "snd (send_email_tool_try w a s b cc) = Inr (snd (send_email w a s b cc)) \<and>
   snd (read_recent_emails_try w n u) = Inr (snd (read_recent_emails w n u)) \<and>
   snd (test_email_connection_tool_try w) = Inr (snd (test_email_connection w)) \<and>
   snd (send_quick_notification_try w r m) = Inr (snd (send_quick_notification w r m)) \<and>
   (\<not> s_success (snd (send_email_helper w a s b cc None False (lit ''gmail''))) \<longrightarrow>
      snd (send_email w a s b cc) =
        mark_fail @ lit '' Failed to send email: ''
          @ s_message (snd (send_email_helper w a s b cc None False (lit ''gmail''))) \<and>
      s_message (snd (send_email_helper w a s b cc None False (lit ''gmail''))) \<noteq> []) \<and>
   (\<not> r_success (snd (read_emails_helper w (lit ''INBOX'') (email_limit n)
          (py_lower u = lit ''true'') (lit ''gmail''))) \<longrightarrow>
      snd (read_recent_emails w n u) =
        mark_fail @ lit '' Failed to read emails: ''
          @ r_message (snd (read_emails_helper w (lit ''INBOX'') (email_limit n)
              (py_lower u = lit ''true'') (lit ''gmail''))) \<and>
      r_message (snd (read_emails_helper w (lit ''INBOX'') (email_limit n)
              (py_lower u = lit ''true'') (lit ''gmail''))) \<noteq> []) \<and>
   (\<not> t_success (snd (test_email_connection_helper w (lit ''gmail''))) \<longrightarrow>
      snd (test_email_connection w) =
        mark_fail @ lit '' Email Connection Failed: ''
          @ t_message (snd (test_email_connection_helper w (lit ''gmail''))) \<and>
      t_message (snd (test_email_connection_helper w (lit ''gmail''))) \<noteq> []) \<and>
   (\<not> s_success (snd (send_email_helper w r (lit ''Notification - '' @ now_strftime w)
          (py_strip (notification_body (now_strftime w) m)) None None False (lit ''gmail''))) \<longrightarrow>
      snd (send_quick_notification w r m) =
        mark_fail @ lit '' Failed to send notification: ''
          @ s_message (snd (send_email_helper w r (lit ''Notification - '' @ now_strftime w)
              (py_strip (notification_body (now_strftime w) m)) None None False (lit ''gmail''))))"
  using send_email_returns [of w a s b cc] read_recent_emails_returns [of w n u]
    test_email_connection_returns [of w] send_quick_notification_returns [of w r m]
    send_failure_message [of w a s b cc None False "lit ''gmail''"]
    read_failure_message [of w "lit ''INBOX''" "email_limit n" "py_lower u = lit ''true''" "lit ''gmail''"]
    test_failure_message [of w "lit ''gmail''"]
  by blast

theorem tools_never_raise_witness:
  "\<not> s_success (snd (send_email_helper auth_failure_world (lit ''a@x.org'') (lit ''Hi'') (lit ''text'')
        None None False (lit ''gmail''))) \<and>
   snd (send_email auth_failure_world (lit ''a@x.org'') (lit ''Hi'') (lit ''text'') None) =
     mark_fail @ lit '' Failed to send email: Authentication failed. Check your email credentials or use app-specific password.''"
proof -
  have failed: "\<not> s_success (snd (send_email_helper auth_failure_world (lit ''a@x.org'') (lit ''Hi'')
      (lit ''text'') None None False (lit ''gmail'')))"
    by (simp add: auth_failure_run)
  with tools_never_raise [of auth_failure_world "lit ''a@x.org''" "lit ''Hi''" "lit ''text''" None]
  have "snd (send_email auth_failure_world (lit ''a@x.org'') (lit ''Hi'') (lit ''text'') None) =
      mark_fail @ lit '' Failed to send email: ''
        @ s_message (snd (send_email_helper auth_failure_world (lit ''a@x.org'') (lit ''Hi'')
            (lit ''text'') None None False (lit ''gmail'')))"
    by blast
  also have "\<dots> = mark_fail @ lit '' Failed to send email: Authentication failed. Check your email credentials or use app-specific password.''"
    by (simp add: auth_failure_run) (simp add: lit_def)
  finally show ?thesis using failed by simp
qed



end
